theory Spec2Isabelle
  imports Complex_Main "HOL-Library.Multiset"
begin

section \<open>Multi-worker collective coordination: CollectiveAllReduceExtended\<close>

text \<open>
  A shallow embedding of \<^verbatim>\<open>tensorflow/python/distribute/collective_all_reduce_strategy.py\<close>
  (class \<^verbatim>\<open>CollectiveAllReduceExtended\<close>). Attributes of the Python object are fields of
  the record \<open>extended\<close>; a method takes the object and returns it updated. An exception is
  a value of \<open>py_error\<close>; a method that can raise after it has assigned attributes returns
  the pair of the exception (if any) and the object as the exception leaves it.
\<close>

subsection \<open>Python values\<close>

datatype tf_error =
    DeadlineExceededError
  | UnavailableError
  | FailedPreconditionError
  | InternalError
  | InvalidArgumentError
  | OtherException string

datatype py_error =
    ValueError string
  | RuntimeError string
  | AssertionError
  | AttributeError
  | IndexError
  | TfError tf_error

text \<open>\<^verbatim>\<open>"%d" % n\<close> for an integer.\<close>

definition digit_char :: "nat \<Rightarrow> char" where
  "digit_char d = ''0123456789'' ! (d mod 10)"

fun str_of_nat :: "nat \<Rightarrow> string" where
  "str_of_nat n = (if n < 10 then [digit_char n] else str_of_nat (n div 10) @ [digit_char n])"

declare str_of_nat.simps [simp del]

definition str_of_int :: "int \<Rightarrow> string" where
  "str_of_int i = (if i < 0 then ''-'' @ str_of_nat (nat (- i)) else str_of_nat (nat i))"

text \<open>\<^verbatim>\<open>range(n)\<close> for a Python integer: empty when \<open>n \<le> 0\<close>.\<close>

definition py_range :: "int \<Rightarrow> int list" where
  "py_range n = map int [0..<nat n]"

subsection \<open>Collaborators of the strategy\<close>

text \<open>
  Modelled from the spec: \<^verbatim>\<open>ClusterSpec\<close> (\<^verbatim>\<open>training/server_lib.py\<close>, not among the
  sources) is "a mapping from job name (string) to an ordered list of task network
  addresses". \<open>jobs\<close> lists the job names, \<open>num_tasks\<close> counts the tasks of a job.
\<close>

type_synonym cluster_spec = "(string \<times> string list) list"

definition jobs :: "cluster_spec \<Rightarrow> string list" where
  "jobs cs = map fst cs"

definition num_tasks :: "cluster_spec \<Rightarrow> string \<Rightarrow> int" where
  "num_tasks cs job = (case map_of cs job of None \<Rightarrow> 0 | Some ts \<Rightarrow> int (length ts))"

datatype communication = AUTO | RING | NCCL

text \<open>
  \<^verbatim>\<open>cross_device_ops.CollectiveAllReduce\<close> (the channel) as the strategy constructs it:
  the constructor's keyword arguments are the fields.
\<close>

record collective_all_reduce =
  car_devices :: "string list"
  car_group_size :: int
  car_communication :: communication

text \<open>
  Modelled from the spec: the reduction operators a caller may name are
  \<^verbatim>\<open>SUM|MEAN|MAX|MIN\<close> (\<^verbatim>\<open>reduce_util.ReduceOp\<close> is not among the sources). The
  constructors carry the name of the enumeration, as in \<^verbatim>\<open>ReduceOp.MEAN\<close>.
\<close>

datatype reduce_op = ReduceOp_SUM | ReduceOp_MEAN | ReduceOp_MAX | ReduceOp_MIN

text \<open>
  The values handed to a reduction: \<^verbatim>\<open>values.Mirrored\<close> and \<^verbatim>\<open>values.PerReplica\<close> are
  the \<^verbatim>\<open>values.DistributedValues\<close> (one component per local device); anything else is a
  plain tensor.
\<close>

datatype 't dvalue = Mirrored "'t list" | PerReplica "'t list" | Plain 't

fun is_Mirrored :: "'t dvalue \<Rightarrow> bool" where
  "is_Mirrored (Mirrored vs) = True"
| "is_Mirrored _ = False"

fun is_DistributedValues :: "'t dvalue \<Rightarrow> bool" where
  "is_DistributedValues (Plain t) = False"
| "is_DistributedValues _ = True"

fun dvalues :: "'t dvalue \<Rightarrow> 't list" where
  "dvalues (Mirrored vs) = vs"
| "dvalues (PerReplica vs) = vs"
| "dvalues (Plain t) = []"

datatype thread = Thread (daemon: bool)

datatype thread_action = EventSet | ThreadStart | ThreadJoin "int option"

subsection \<open>The strategy object\<close>

record extended =
  enable_check_health :: bool
  check_health_interval :: int
  check_health_initial_timeout :: int
  check_health_retry_limit :: int
  communication :: communication
  is_chief :: bool
  num_workers :: int
  worker_device :: string
  cross_device_ops :: "collective_all_reduce option"
  host_cross_device_ops :: "collective_all_reduce option"
  worker_devices :: "string list"
  cluster_spec :: "cluster_spec option"
  task_type :: "string option"
  task_id :: "int option"
  id_in_cluster :: int
  default_device :: "string option"
  num_gpus_per_worker :: int
  rpc_layer :: "string option"
  local_or_standalone_client_mode :: bool
  std_server_started :: bool
  collective_ops_configured :: bool
  check_health_thread :: "thread option"
  check_health_thread_should_stop :: "bool option"
  thread_log :: "thread_action list"

text \<open>The class attributes (lines 184--194) and an object no method has touched yet.\<close>

definition class_defaults :: extended where
  "class_defaults = \<lparr>
     enable_check_health = True,
     check_health_interval = 30,
     check_health_initial_timeout = 0,
     check_health_retry_limit = 3,
     communication = AUTO,
     is_chief = False,
     num_workers = 0,
     worker_device = [],
     cross_device_ops = None,
     host_cross_device_ops = None,
     worker_devices = [],
     cluster_spec = None,
     task_type = None,
     task_id = None,
     id_in_cluster = 0,
     default_device = None,
     num_gpus_per_worker = 0,
     rpc_layer = None,
     local_or_standalone_client_mode = False,
     std_server_started = False,
     collective_ops_configured = False,
     check_health_thread = None,
     check_health_thread_should_stop = None,
     thread_log = [] \<rparr>"

subsection \<open>Choosing the channel and reducing\<close>

text \<open>\<^verbatim>\<open>_get_cross_device_ops\<close> (lines 592--606).\<close>

definition get_cross_device_ops :: "extended \<Rightarrow> 't dvalue \<Rightarrow> collective_all_reduce option" where
  "get_cross_device_ops s v =
     (let num_devices = (if is_DistributedValues v then length (dvalues v) else 1)
      in if num_devices = length (worker_devices s) then cross_device_ops s
         else host_cross_device_ops s)"

text \<open>
  What \<^verbatim>\<open>_reduce_to\<close> does with its operand: it hands it back, or it calls
  \<^verbatim>\<open>reduce_non_distributed_value\<close>, or it calls \<^verbatim>\<open>reduce\<close> of a channel (a collective).
\<close>

datatype ('t, 'd, 'h) reduce_result =
    Returned "'t dvalue"
  | ReduceNonDistributed reduce_op "'t dvalue" 'd nat
  | CrossDeviceReduce "collective_all_reduce option" reduce_op "'t dvalue" 'd 'h

text \<open>\<^verbatim>\<open>_reduce_to\<close> (lines 616--640).\<close>

definition reduce_to ::
  "extended \<Rightarrow> reduce_op \<Rightarrow> 't dvalue \<Rightarrow> 'd \<Rightarrow> 'h \<Rightarrow> py_error + ('t, 'd, 'h) reduce_result" where
  "reduce_to s reduce_op v destinations experimental_hints =
     (if is_Mirrored v \<and> reduce_op = ReduceOp_MEAN then Inr (Returned v)
      else if is_Mirrored v then Inl AssertionError
      else if is_DistributedValues v \<and> length (worker_devices s) = 1 \<and> dvalues v = []
        then Inl IndexError
      else
        let v' = (if is_DistributedValues v \<and> length (worker_devices s) = 1
                  then Plain (hd (dvalues v)) else v)
        in if \<not> is_DistributedValues v' \<and> num_workers s = 1
           then Inr (ReduceNonDistributed reduce_op v' destinations (length (worker_devices s)))
           else Inr (CrossDeviceReduce (get_cross_device_ops s v') reduce_op v' destinations
                       experimental_hints))"

subsection \<open>The health monitor\<close>

text \<open>
  \<^verbatim>\<open>_check_health\<close> (lines 642--680) runs in its own thread. What it observes from outside
  is an oracle: \<open>probe env n peer\<close> is the answer of the \<open>n\<close>-th call of
  \<^verbatim>\<open>check_collective_ops_peer_health\<close> (it returns, or raises an exception with a
  message), and \<open>stop_is_set env k\<close> is what \<^verbatim>\<open>_check_health_thread_should_stop.is_set()\<close>
  answers at the start of iteration \<open>k\<close> of the outer loop. What it does is a trace of
  events: the probes, the calls of \<^verbatim>\<open>abort_collective_ops\<close> and the sleeps.
\<close>

datatype probe_result = Healthy | Raises tf_error string

datatype abort_code = UNAVAILABLE | INTERNAL

datatype event = Probe string probe_result | Abort abort_code string | Sleep int

record monitor_env =
  probe :: "nat \<Rightarrow> string \<Rightarrow> probe_result"
  stop_is_set :: "nat \<Rightarrow> bool"

record monitor =
  probes_done :: nat
  rounds :: nat
  trace :: "event list"

definition monitor0 :: monitor where
  "monitor0 = \<lparr> probes_done = 0, rounds = 0, trace = [] \<rparr>"

definition peer_name :: "string \<Rightarrow> int \<Rightarrow> string" where
  "peer_name job tid = ''/job:'' @ job @ ''/replica:0/task:'' @ str_of_int tid"

text \<open>The peers in the order the two \<^verbatim>\<open>for\<close> loops visit them.\<close>

definition peers :: "cluster_spec \<Rightarrow> string list" where
  "peers cs = concat (map (\<lambda>job. map (peer_name job) (py_range (num_tasks cs job))) (jobs cs))"

definition down_message :: "string \<Rightarrow> string" where
  "down_message peer = ''cluster check alive failed, '' @ peer @ '' is down''"

definition unexpected_message :: "string \<Rightarrow> string" where
  "unexpected_message e = ''unexecpted exception in check alive: '' @ e"

definition record_event :: "event \<Rightarrow> monitor \<Rightarrow> monitor" where
  "record_event e m = m\<lparr>trace := trace m @ [e]\<rparr>"

datatype flow = Continue | Return

text \<open>
  The retry loop of one peer (lines 649--679), entered with \<open>attempts\<close> as the loop finds it:
  \<open>Continue\<close> is the \<^verbatim>\<open>break\<close> of a healthy peer, \<open>Return\<close> is the \<^verbatim>\<open>return\<close> after
  \<^verbatim>\<open>abort_collective_ops\<close>.
\<close>

function check_peer :: "extended \<Rightarrow> monitor_env \<Rightarrow> string \<Rightarrow> int \<Rightarrow> monitor \<Rightarrow> flow \<times> monitor" where
  "check_peer s env peer attempts m =
     (let r = probe env (probes_done m) peer;
          m' = record_event (Probe peer r) (m\<lparr>probes_done := Suc (probes_done m)\<rparr>)
      in case r of
           Healthy \<Rightarrow> (Continue, m')
         | Raises e msg \<Rightarrow>
             if e = UnavailableError \<or> e = FailedPreconditionError then
               if attempts + 1 < check_health_retry_limit s
               then check_peer s env peer (attempts + 1) m'
               else (Return, record_event (Abort UNAVAILABLE (down_message peer)) m')
             else (Return, record_event (Abort INTERNAL (unexpected_message msg)) m'))"
  by pat_completeness auto
termination
  by (relation "measure (\<lambda>(s, env, peer, attempts, m). nat (check_health_retry_limit s - attempts))")
     auto

declare check_peer.simps [simp del]

text \<open>One pass of the two \<^verbatim>\<open>for\<close> loops over the peers (lines 646--679).\<close>

fun check_peers :: "extended \<Rightarrow> monitor_env \<Rightarrow> string list \<Rightarrow> monitor \<Rightarrow> flow \<times> monitor" where
  "check_peers s env [] m = (Continue, m)"
| "check_peers s env (peer # ps) m =
     (case check_peer s env peer 0 m of
        (Return, m') \<Rightarrow> (Return, m')
      | (Continue, m') \<Rightarrow> check_peers s env ps m')"

datatype status = Stopped | Aborted | Raised py_error | OutOfFuel

text \<open>
  The outer \<^verbatim>\<open>while True\<close> (lines 643--680). Nothing bounds the number of its iterations,
  so the model takes fuel: \<open>OutOfFuel\<close> says that the loop is still running after that
  many iterations; every other status is a return of \<^verbatim>\<open>_check_health\<close> (\<open>Raised\<close>: by an
  exception, when there is no cluster spec to read the jobs from).
\<close>

fun check_health :: "nat \<Rightarrow> extended \<Rightarrow> monitor_env \<Rightarrow> monitor \<Rightarrow> status \<times> monitor" where
  "check_health 0 s env m = (OutOfFuel, m)"
| "check_health (Suc fuel) s env m =
     (if stop_is_set env (rounds m) then (Stopped, m)
      else case cluster_spec s of
        None \<Rightarrow> (Raised AttributeError, m)
      | Some cs \<Rightarrow>
         (case check_peers s env (peers cs) m of
            (Return, m') \<Rightarrow> (Aborted, m')
          | (Continue, m') \<Rightarrow>
              check_health fuel s env
                (record_event (Sleep (check_health_interval s)) (m'\<lparr>rounds := Suc (rounds m')\<rparr>))))"

fun is_abort :: "event \<Rightarrow> bool" where
  "is_abort (Abort c msg) = True"
| "is_abort _ = False"

fun is_transient :: "tf_error \<Rightarrow> bool" where
  "is_transient UnavailableError = True"
| "is_transient FailedPreconditionError = True"
| "is_transient _ = False"

text \<open>
  Vocabulary for traces: the failed probes of one peer in a row, a trace without a call of
  \<^verbatim>\<open>abort_collective_ops\<close>, and what the trace of a run looks like that declared a peer
  down (\<open>a\<close> is the value of \<^verbatim>\<open>attempts\<close> the retry loop started from).
\<close>

definition failed_probes :: "string \<Rightarrow> (tf_error \<times> string) list \<Rightarrow> event list" where
  "failed_probes peer es = map (\<lambda>(e, msg). Probe peer (Raises e msg)) es"

definition no_abort :: "event list \<Rightarrow> bool" where
  "no_abort tr = (filter is_abort tr = [])"

definition declared_down :: "extended \<Rightarrow> int \<Rightarrow> event list \<Rightarrow> string \<Rightarrow> bool" where
  "declared_down s a added msg =
     (\<exists>pre peer es. added = pre @ failed_probes peer es \<and> (\<forall>e\<in>set es. is_transient (fst e)) \<and>
        int (length es) = max 1 (check_health_retry_limit s - a) \<and> msg = down_message peer)"

definition aborted_tail :: "extended \<Rightarrow> event list \<Rightarrow> event list \<Rightarrow> bool" where
  "aborted_tail s tr tr' =
     (\<exists>added c msg. tr' = tr @ added @ [Abort c msg] \<and> no_abort added \<and>
        (c = UNAVAILABLE \<longrightarrow> declared_down s 0 added msg))"

definition quiet_tail :: "event list \<Rightarrow> event list \<Rightarrow> bool" where
  "quiet_tail tr tr' = (\<exists>added. tr' = tr @ added \<and> no_abort added)"

text \<open>A cluster of two workers whose second worker does not answer.\<close>

definition two_workers :: cluster_spec where
  "two_workers = [(''worker'', [''host0:2222'', ''host1:2222''])]"

definition worker1_down :: monitor_env where
  "worker1_down = \<lparr> probe = (\<lambda>n peer. if peer = ''/job:worker/replica:0/task:1''
                       then Raises UnavailableError ''unreachable'' else Healthy),
                    stop_is_set = (\<lambda>k. False) \<rparr>"

definition worker1_down_trace :: "event list" where
  "worker1_down_trace =
     [Probe ''/job:worker/replica:0/task:0'' Healthy,
      Probe ''/job:worker/replica:0/task:1'' (Raises UnavailableError ''unreachable''),
      Probe ''/job:worker/replica:0/task:1'' (Raises UnavailableError ''unreachable''),
      Probe ''/job:worker/replica:0/task:1'' (Raises UnavailableError ''unreachable''),
      Abort UNAVAILABLE ''cluster check alive failed, /job:worker/replica:0/task:1 is down'']"

subsection \<open>Initialisation\<close>

text \<open>\<^verbatim>\<open>collective_util.Hints\<close> (\<^verbatim>\<open>collective_util.py\<close>, lines 64--86).\<close>

record hints =
  bytes_per_pack :: int
  timeout_seconds :: "int option"

definition Hints :: "int \<Rightarrow> int option \<Rightarrow> py_error + hints" where
  "Hints bpp ts =
     (if bpp < 0 then Inl (ValueError ''bytes_per_pack must be non-negative'')
      else Inr \<lparr> bytes_per_pack = bpp, timeout_seconds = ts \<rparr>)"

text \<open>
  The cluster resolver handed to the strategy: its cluster spec, task type and id, its
  \<^verbatim>\<open>num_accelerators()\<close> dictionary and rpc layer, whether it is a
  \<^verbatim>\<open>TFConfigClusterResolver\<close>, and its \<^verbatim>\<open>port\<close> attribute when it has one.
\<close>

record cluster_resolver =
  cr_cluster_spec :: cluster_spec
  cr_task_type :: "string option"
  cr_task_id :: "int option"
  cr_num_accelerators :: "(string \<times> int) list"
  cr_rpc_layer :: "string option"
  cr_is_tfconfig :: bool
  cr_port :: "int option"

text \<open>
  What the strategy asks of code that is not its own: the eager context
  (\<^verbatim>\<open>context.executing_eagerly()\<close>, \<^verbatim>\<open>context.num_gpus()\<close>, \<^verbatim>\<open>context.is_async()\<close>,
  \<^verbatim>\<open>context.async_wait()\<close>), the outcome of the dummy reduce on the host channel under the
  hints it is given (\<open>None\<close>: it completes), the helpers of \<^verbatim>\<open>multi_worker_util\<close>, which
  may raise, and \<^verbatim>\<open>device_util.canonicalize\<close>. They are parameters of the model.
\<close>

record runtime =
  executing_eagerly_outside_functions :: bool
  executing_eagerly :: bool
  context_num_gpus :: int
  is_async :: bool
  host_reduce :: "hints \<Rightarrow> tf_error option"
  async_wait :: "tf_error option"
  normalize_cluster_spec :: "cluster_spec \<Rightarrow> cluster_spec"
  id_in_cluster_of :: "cluster_spec \<Rightarrow> string \<Rightarrow> int \<Rightarrow> py_error + int"
  worker_count :: "cluster_spec \<Rightarrow> string \<Rightarrow> py_error + int"
  is_chief_of :: "cluster_spec \<Rightarrow> string \<Rightarrow> int \<Rightarrow> py_error + bool"
  canonicalize :: "string \<Rightarrow> string"

definition job_task :: "string \<Rightarrow> int \<Rightarrow> string" where
  "job_task tt tid = ''/job:'' @ tt @ ''/task:'' @ str_of_int tid"

definition timeout_message :: "int \<Rightarrow> string" where
  "timeout_message t =
     ''Timeout waiting for the cluster, timeout is '' @ str_of_int t @ '' seconds''"

text \<open>
  \<^verbatim>\<open>_start_check_health_thread\<close> (lines 682--718): outside eager mode nothing happens;
  otherwise the dummy reduce on the host channel is the barrier, a
  \<^verbatim>\<open>DeadlineExceededError\<close> of it (or of \<^verbatim>\<open>async_wait\<close>) becomes a \<^verbatim>\<open>RuntimeError\<close>, any
  other exception propagates, and only after the barrier are the stop event and the
  daemon thread created and the thread started.
\<close>

definition thread_started :: "extended \<Rightarrow> extended" where
  "thread_started s =
     s\<lparr> check_health_thread_should_stop := Some False,
        check_health_thread := Some (Thread True),
        thread_log := thread_log s @ [ThreadStart] \<rparr>"

definition barrier_error :: "extended \<Rightarrow> tf_error \<Rightarrow> py_error" where
  "barrier_error s e =
     (if e = DeadlineExceededError
      then RuntimeError (timeout_message (check_health_initial_timeout s))
      else TfError e)"

text \<open>The body of the \<^verbatim>\<open>try\<close> (lines 698--705): the reduce, then \<^verbatim>\<open>async_wait\<close> in async mode.\<close>

definition barrier :: "runtime \<Rightarrow> hints \<Rightarrow> tf_error option" where
  "barrier rt h =
     (case host_reduce rt h of
        Some e \<Rightarrow> Some e
      | None \<Rightarrow> if is_async rt then async_wait rt else None)"

definition start_check_health_thread :: "runtime \<Rightarrow> extended \<Rightarrow> py_error option \<times> extended" where
  "start_check_health_thread rt s =
     (if \<not> executing_eagerly rt then (None, s)
      else case Hints 0 (Some (check_health_initial_timeout s)) of
        Inl e \<Rightarrow> (Some e, s)
      | Inr h \<Rightarrow>
         (case barrier rt h of
            Some e \<Rightarrow> (Some (barrier_error s e), s)
          | None \<Rightarrow> (None, thread_started s)))"

text \<open>
  \<^verbatim>\<open>_stop_check_health_thread\<close> (lines 720--726), which is all \<^verbatim>\<open>__del__\<close> (lines 400--401)
  does: with a thread at hand it sets the stop event, joins the thread, and forgets it.
  The argument of \<open>ThreadJoin\<close> is the timeout the call of \<^verbatim>\<open>join\<close> passes.
\<close>

definition stop_check_health_thread :: "extended \<Rightarrow> py_error option \<times> extended" where
  "stop_check_health_thread s =
     (case check_health_thread s of
        None \<Rightarrow> (None, s)
      | Some th \<Rightarrow>
         (case check_health_thread_should_stop s of
            None \<Rightarrow> (Some AttributeError, s)
          | Some b \<Rightarrow>
              (None, s\<lparr> check_health_thread_should_stop := Some True,
                        thread_log := thread_log s @ [EventSet, ThreadJoin None],
                        check_health_thread := None \<rparr>)))"

definition del :: "extended \<Rightarrow> py_error option \<times> extended" where
  "del s = stop_check_health_thread s"

text \<open>
  Modelled from the spec: \<^verbatim>\<open>MirroredExtended._initialize_single_worker\<close> and the property
  \<^verbatim>\<open>worker_devices\<close> (\<^verbatim>\<open>mirrored_strategy.py\<close>, not among the sources). The spec's
  "local_devices: DeviceGroup" is what the topology computes and what the participants
  are counted from ("local devices x task count"): the local devices passed in are the
  worker devices read back, one for one, under the names \<^verbatim>\<open>device_util.canonicalize\<close>
  gives them.
\<close>

definition initialize_single_worker :: "runtime \<Rightarrow> string list \<Rightarrow> extended \<Rightarrow> extended" where
  "initialize_single_worker rt devs s = s\<lparr> worker_devices := map (canonicalize rt) devs \<rparr>"

text \<open>The number of GPUs of this task (lines 354--357).\<close>

definition resolver_num_gpus :: "runtime \<Rightarrow> cluster_resolver \<Rightarrow> int" where
  "resolver_num_gpus rt cr =
     (if cr_is_tfconfig cr then context_num_gpus rt
      else case map_of (cr_num_accelerators cr) ''GPU'' of None \<Rightarrow> 0 | Some n \<Rightarrow> n)"

text \<open>The local devices (lines 359--363).\<close>

definition local_devices :: "string \<Rightarrow> int \<Rightarrow> string list" where
  "local_devices wd num_gpus =
     (if num_gpus \<noteq> 0
      then map (\<lambda>i. wd @ ''/device:GPU:'' @ str_of_int i) (py_range num_gpus)
      else [wd])"

text \<open>
  Lines 311--347: configuring collective ops and starting the standard server act on the
  eager context; on the object they leave two marks.
\<close>

definition enable_collectives :: "runtime \<Rightarrow> extended \<Rightarrow> extended" where
  "enable_collectives rt s =
     (let s1 = (if executing_eagerly_outside_functions rt \<and> \<not> local_or_standalone_client_mode s
                then s\<lparr> collective_ops_configured := True \<rparr> else s)
      in if executing_eagerly rt \<and> \<not> std_server_started s1 \<and>
            \<not> local_or_standalone_client_mode s1
         then s1\<lparr> std_server_started := True \<rparr> else s1)"

text \<open>Lines 354--388: the devices, the two channels and the attributes kept for later.\<close>

definition create_channels :: "runtime \<Rightarrow> cluster_resolver \<Rightarrow> string \<Rightarrow> int \<Rightarrow> extended \<Rightarrow> extended" where
  "create_channels rt cr tt tid s =
     (let num_gpus = resolver_num_gpus rt cr;
          devs = local_devices (worker_device s) num_gpus;
          s1 = s\<lparr> cross_device_ops := Some
                     \<lparr> car_devices = devs,
                       car_group_size = int (length devs) * num_workers s,
                       car_communication = communication s \<rparr>,
                   host_cross_device_ops := Some
                     \<lparr> car_devices = [worker_device s],
                       car_group_size = num_workers s,
                       car_communication = RING \<rparr> \<rparr>;
          s2 = initialize_single_worker rt devs s1
      in s2\<lparr> default_device := Some (job_task tt tid),
              num_gpus_per_worker := num_gpus,
              rpc_layer := cr_rpc_layer cr \<rparr>)"

text \<open>
  \<^verbatim>\<open>_initialize_multi_worker\<close> (lines 285--398). Each \<^verbatim>\<open>raise\<close> leaves the attributes
  assigned before it.
\<close>

definition initialize_multi_worker ::
  "runtime \<Rightarrow> cluster_resolver \<Rightarrow> extended \<Rightarrow> py_error option \<times> extended" where
  "initialize_multi_worker rt cr s =
     (let cs = normalize_cluster_spec rt (cr_cluster_spec cr) in
      case (cr_task_type cr, cr_task_id cr) of
        (Some tt, Some tid) \<Rightarrow>
          (let s1 = s\<lparr> cluster_spec := Some cs, task_type := Some tt, task_id := Some tid \<rparr> in
           case id_in_cluster_of rt cs tt tid of
             Inl e \<Rightarrow> (Some e, s1)
           | Inr idc \<Rightarrow>
              (let s2 = s1\<lparr> id_in_cluster := idc \<rparr> in
               case worker_count rt cs tt of
                 Inl e \<Rightarrow> (Some e, s2)
               | Inr nw \<Rightarrow>
                  (let s3 = s2\<lparr> num_workers := nw \<rparr> in
                   if nw = 0 then
                     (Some (ValueError
                        ''No `worker`, `chief` or `evaluator` tasks can be found in `cluster_spec`.''), s3)
                   else
                     case is_chief_of rt cs tt tid of
                       Inl e \<Rightarrow> (Some e, s3)
                     | Inr ch \<Rightarrow>
                        (let s4 = s3\<lparr> is_chief := ch, worker_device := job_task tt tid \<rparr>;
                             s5 = create_channels rt cr tt tid (enable_collectives rt s4)
                         in if enable_check_health s5 then start_check_health_thread rt s5
                            else (None, s5)))))
      | _ \<Rightarrow>
          (Some (ValueError
             ''When `cluster_spec` is given, you must also specify `task_type` and `task_id`.''), s))"

text \<open>
  \<^verbatim>\<open>_initialize_local\<close> (lines 218--283): one worker, which is the chief; the devices
  given, or else the GPUs of the task, or else the CPU; both channels built anew, the
  compute-device channel with the number of local devices as its group size, the host
  channel with the number of workers; no cluster spec, task type or task id. A
  \<^verbatim>\<open>RuntimeError\<close> of \<^verbatim>\<open>configure_collective_ops\<close> is caught and logged (lines 224--229).
\<close>

definition initialize_local ::
  "runtime \<Rightarrow> cluster_resolver \<Rightarrow> string list option \<Rightarrow> extended \<Rightarrow>
     py_error option \<times> extended" where
  "initialize_local rt cr devices s =
     (let s1 = s\<lparr> is_chief := True, num_workers := 1 \<rparr>;
          s2 = (if executing_eagerly_outside_functions rt
                then s1\<lparr> collective_ops_configured := True \<rparr> else s1);
          num_gpus = resolver_num_gpus rt cr;
          devs = (case devices of
                    Some (d # ds) \<Rightarrow> d # ds
                  | _ \<Rightarrow>
                      if num_gpus \<noteq> 0
                      then map (\<lambda>i. ''/device:GPU:'' @ str_of_int i) (py_range num_gpus)
                      else [''/device:CPU:0'']);
          s3 = s2\<lparr> worker_device := canonicalize rt ''/device:CPU:0'' \<rparr>;
          s4 = s3\<lparr> cross_device_ops := Some
                     \<lparr> car_devices = devs,
                       car_group_size = int (length devs),
                       car_communication = communication s3 \<rparr>,
                   host_cross_device_ops := Some
                     \<lparr> car_devices = [worker_device s3],
                       car_group_size = num_workers s3,
                       car_communication = RING \<rparr> \<rparr>;
          s5 = initialize_single_worker rt devs s4
      in (None, s5\<lparr> cluster_spec := None, task_type := None, task_id := None,
                     id_in_cluster := 0,
                     local_or_standalone_client_mode := True,
                     num_gpus_per_worker := num_gpus,
                     rpc_layer := cr_rpc_layer cr \<rparr>))"

text \<open>\<^verbatim>\<open>_initialize_strategy\<close> (lines 212--216).\<close>

definition initialize_strategy ::
  "runtime \<Rightarrow> cluster_resolver \<Rightarrow> extended \<Rightarrow> py_error option \<times> extended" where
  "initialize_strategy rt cr s =
     (if cr_cluster_spec cr \<noteq> [] then initialize_multi_worker rt cr s
      else initialize_local rt cr None s)"

text \<open>
  \<^verbatim>\<open>CollectiveAllReduceExtended.__init__\<close> (lines 196--210) as far as it assigns the
  attributes above, and \<^verbatim>\<open>CollectiveAllReduceStrategy._from_local_devices\<close> (lines
  134--142), which constructs the object and then initialises it again, locally.
  \<open>tf_config\<close> is the resolver \<^verbatim>\<open>TFConfigClusterResolver()\<close> reads from the environment.
\<close>

definition extended_init ::
  "runtime \<Rightarrow> cluster_resolver \<Rightarrow> communication \<Rightarrow> cluster_resolver option \<Rightarrow>
     py_error option \<times> extended" where
  "extended_init rt tf_config comm cluster_resolver =
     initialize_strategy rt
       (case cluster_resolver of None \<Rightarrow> tf_config | Some cr \<Rightarrow> cr)
       (class_defaults\<lparr> communication := comm \<rparr>)"

definition from_local_devices ::
  "runtime \<Rightarrow> cluster_resolver \<Rightarrow> string list \<Rightarrow> communication \<Rightarrow>
     py_error option \<times> extended" where
  "from_local_devices rt tf_config devices comm =
     (case extended_init rt tf_config comm None of
        (Some e, obj) \<Rightarrow> (Some e, obj)
      | (None, obj) \<Rightarrow> initialize_local rt tf_config (Some devices) obj)"

text \<open>
  \<^verbatim>\<open>_configure\<close> (lines 521--552), as far as it acts on the object: a cluster spec that is
  neither \<^verbatim>\<open>None\<close> nor empty runs the multi-worker initialisation again, from a
  \<^verbatim>\<open>SimpleClusterResolver\<close> that reports the number of GPUs and the rpc layer recorded
  before. (The session configuration it also updates is the caller's.)
\<close>

definition configure ::
  "runtime \<Rightarrow> cluster_spec option \<Rightarrow> string option \<Rightarrow> int option \<Rightarrow> extended \<Rightarrow>
     py_error option \<times> extended" where
  "configure rt cspec tt tid s =
     (case cspec of
        None \<Rightarrow> (None, s)
      | Some cs \<Rightarrow>
          if cs = [] then (None, s)
          else initialize_multi_worker rt
                 \<lparr> cr_cluster_spec = normalize_cluster_spec rt cs,
                   cr_task_type = tt,
                   cr_task_id = tid,
                   cr_num_accelerators = [(''GPU'', num_gpus_per_worker s)],
                   cr_rpc_layer = rpc_layer s,
                   cr_is_tfconfig = False,
                   cr_port = None \<rparr> s)"

text \<open>\<^verbatim>\<open>_num_replicas_in_sync\<close> (lines 755--757).\<close>

definition num_replicas_in_sync :: "extended \<Rightarrow> int" where
  "num_replicas_in_sync s = int (length (worker_devices s)) * num_workers s"

text \<open>\<^verbatim>\<open>_update_config_proto\<close> (lines 554--590) changes a copy of the configuration it is
  given; of the object it reads the cluster spec and asserts the task type and id.\<close>

definition update_config_proto_error :: "extended \<Rightarrow> py_error option" where
  "update_config_proto_error s =
     (if cluster_spec s = None \<or> cluster_spec s = Some [] then None
      else if task_type s = None \<or> task_type s = Some [] \<or> task_id s = None
      then Some AssertionError else None)"

text \<open>
  The methods of the class, in the order of the source (lines 212--770), as calls on an
  object that exists. Attributes are assigned in \<^verbatim>\<open>_initialize_local\<close>,
  \<^verbatim>\<open>_initialize_multi_worker\<close>, \<^verbatim>\<open>_start_check_health_thread\<close> and
  \<^verbatim>\<open>_stop_check_health_thread\<close>, and so by their callers \<^verbatim>\<open>_initialize_strategy\<close>,
  \<^verbatim>\<open>_configure\<close> and \<^verbatim>\<open>__del__\<close>. The bodies of the other methods (lines 403--519,
  554--680 and 728--770) hold no assignment to an attribute of the object: such a call
  returns or raises and leaves the object as it is.
\<close>

datatype 't call =
    InitializeStrategy cluster_resolver
  | InitializeLocal cluster_resolver "string list option"
  | InitializeMultiWorker cluster_resolver
  | Del
  | InputWorkersWithOptions
  | InputWorkers
  | GetVariableCreatorInitialValue
  | MakeInputContext
  | ExperimentalDistributeDataset
  | DistributeDatasetsFromFunction
  | ExperimentalDistributeValuesFromFunction
  | MakeDatasetIterator
  | MakeInputFnIterator
  | Configure "cluster_spec option" "string option" "int option"
  | UpdateConfigProto
  | GetCrossDeviceOps "'t dvalue"
  | GatherToImplementation "'t dvalue"
  | ReduceTo reduce_op "'t dvalue"
  | CheckHealth
  | StartCheckHealthThread
  | StopCheckHealthThread
  | WarnNcclNoGpu
  | InMultiWorkerMode
  | ExperimentalBetweenGraph
  | ExperimentalShouldInit
  | ShouldCheckpoint
  | ShouldSaveSummary
  | NumReplicasInSync
  | GlobalBatchSize

fun step :: "runtime \<Rightarrow> 't call \<Rightarrow> extended \<Rightarrow> py_error option \<times> extended" where
  "step rt (InitializeStrategy cr) s = initialize_strategy rt cr s"
| "step rt (InitializeLocal cr devices) s = initialize_local rt cr devices s"
| "step rt (InitializeMultiWorker cr) s = initialize_multi_worker rt cr s"
| "step rt Del s = del s"
| "step rt (Configure cspec tt tid) s = configure rt cspec tt tid s"
| "step rt UpdateConfigProto s = (update_config_proto_error s, s)"
| "step rt (ReduceTo reduce_op v) s =
     ((case reduce_to s reduce_op v () () of Inl e \<Rightarrow> Some e | Inr r \<Rightarrow> None), s)"
| "step rt StartCheckHealthThread s = start_check_health_thread rt s"
| "step rt StopCheckHealthThread s = stop_check_health_thread s"
| "step rt InputWorkersWithOptions s = (None, s)"
| "step rt InputWorkers s = (None, s)"
| "step rt GetVariableCreatorInitialValue s = (None, s)"
| "step rt MakeInputContext s = (None, s)"
| "step rt ExperimentalDistributeDataset s = (None, s)"
| "step rt DistributeDatasetsFromFunction s = (None, s)"
| "step rt ExperimentalDistributeValuesFromFunction s = (None, s)"
| "step rt MakeDatasetIterator s = (None, s)"
| "step rt MakeInputFnIterator s = (None, s)"
| "step rt (GetCrossDeviceOps v) s = (None, s)"
| "step rt (GatherToImplementation v) s = (None, s)"
| "step rt CheckHealth s = (None, s)"
| "step rt WarnNcclNoGpu s = (None, s)"
| "step rt InMultiWorkerMode s = (None, s)"
| "step rt ExperimentalBetweenGraph s = (None, s)"
| "step rt ExperimentalShouldInit s = (None, s)"
| "step rt ShouldCheckpoint s = (None, s)"
| "step rt ShouldSaveSummary s = (None, s)"
| "step rt NumReplicasInSync s = (None, s)"
| "step rt GlobalBatchSize s = (None, s)"

text \<open>A sequence of calls; the object survives an exception of one of them.\<close>

fun run_calls :: "runtime \<Rightarrow> 't call list \<Rightarrow> extended \<Rightarrow> extended" where
  "run_calls rt [] s = s"
| "run_calls rt (c # cs) s = run_calls rt cs (snd (step rt c s))"

text \<open>The calls that run one of the two initialisations.\<close>

fun reinitializes :: "'t call \<Rightarrow> bool" where
  "reinitializes (InitializeStrategy cr) = True"
| "reinitializes (InitializeLocal cr devices) = True"
| "reinitializes (InitializeMultiWorker cr) = True"
| "reinitializes (Configure (Some cs) tt tid) = (cs \<noteq> [])"
| "reinitializes _ = False"

text \<open>
  The three numbers of the claim about group sizes, and their agreement with the topology:
  the group size of the compute-device channel, the group size of the host channel, and
  \<^verbatim>\<open>_num_replicas_in_sync\<close>.
\<close>

definition channel_sizes :: "extended \<Rightarrow> int option \<times> int option \<times> int" where
  "channel_sizes s =
     (map_option car_group_size (cross_device_ops s),
      map_option car_group_size (host_cross_device_ops s),
      num_replicas_in_sync s)"

definition sizes_agree :: "extended \<Rightarrow> bool" where
  "sizes_agree s =
     (channel_sizes s =
        (Some (int (length (worker_devices s)) * num_workers s),
         Some (num_workers s),
         int (length (worker_devices s)) * num_workers s))"

text \<open>
  A runtime for examples: eager, no GPU of its own, the barrier's outcome as given, and
  helpers that count the tasks of the jobs \<^verbatim>\<open>chief\<close> and \<^verbatim>\<open>worker\<close>, take the task id as
  the id in the cluster and make task 0 the chief; a device name without a job gets that
  of the local host. Worker 0 of a cluster reports two GPUs; read from \<^verbatim>\<open>TF_CONFIG\<close>, the
  number of GPUs is that of the context.
\<close>

definition count_workers :: "cluster_spec \<Rightarrow> string \<Rightarrow> py_error + int" where
  "count_workers cs tt =
     Inr (int (length (concat (map snd (filter (\<lambda>(job, ts). job = ''chief'' \<or> job = ''worker'') cs)))))"

definition eager_runtime :: "tf_error option \<Rightarrow> runtime" where
  "eager_runtime outcome =
     \<lparr> executing_eagerly_outside_functions = True,
       executing_eagerly = True,
       context_num_gpus = 0,
       is_async = False,
       host_reduce = (\<lambda>h. outcome),
       async_wait = None,
       normalize_cluster_spec = (\<lambda>cs. cs),
       id_in_cluster_of = (\<lambda>cs tt tid. Inr tid),
       worker_count = count_workers,
       is_chief_of = (\<lambda>cs tt tid. Inr (tid = 0)),
       canonicalize = (\<lambda>d. if take 5 d = ''/job:'' then d
                           else ''/job:localhost/replica:0/task:0'' @ d) \<rparr>"

definition worker0_of :: "cluster_spec \<Rightarrow> cluster_resolver" where
  "worker0_of cs =
     \<lparr> cr_cluster_spec = cs,
       cr_task_type = Some ''worker'',
       cr_task_id = Some 0,
       cr_num_accelerators = [(''GPU'', 2)],
       cr_rpc_layer = None,
       cr_is_tfconfig = False,
       cr_port = None \<rparr>"

definition tf_config_of :: "cluster_spec \<Rightarrow> cluster_resolver" where
  "tf_config_of cs = (worker0_of cs)\<lparr> cr_is_tfconfig := True \<rparr>"

definition three_workers :: cluster_spec where
  "three_workers = [(''worker'', [''host0:2222'', ''host1:2222'', ''host2:2222''])]"

text \<open>A monitor whose peers all answer and whose stop event is set from iteration \<open>n\<close> on.\<close>

definition stop_from :: "nat \<Rightarrow> monitor_env" where
  "stop_from n = \<lparr> probe = (\<lambda>i peer. Healthy), stop_is_set = (\<lambda>k. n \<le> k) \<rparr>"

subsection \<open>The collective primitives\<close>

text \<open>
  Modelled from the spec: the collective primitives \<^verbatim>\<open>all_reduce\<close>, \<^verbatim>\<open>all_gather\<close>,
  \<^verbatim>\<open>broadcast_send\<close> and \<^verbatim>\<open>broadcast_recv\<close> (\<^verbatim>\<open>ops/collective_ops.py\<close> and the kernels
  behind it are not among the sources; \<^verbatim>\<open>ops/collective_ops_test.py\<close> calls them). The
  spec, section 4.3 and section 7: a collective blocks "until every participant has
  contributed"; "group_size must equal total participants", and a disagreement is a
  \<open>GroupSizeMismatch\<close> for the participants of that instance; \<^verbatim>\<open>MEAN\<close> "divides the summed
  result by group_size"; reductions merge in "ascending device rank"; a gather is
  "ordered by task/device rank"; in a broadcast "one designated sender" sends "and all
  others receive", and "shapes/dtypes must match exactly across participants or the call
  fails with ShapeMismatch".

  A tensor is its shape, its element type and its elements in row-major order; the
  elements are numbers of an ordered field (floating-point rounding is not modelled).
\<close>

datatype dtype = Float16 | Float32 | Int32

record 'a tensor =
  t_shape :: "nat list"
  t_dtype :: dtype
  t_elems :: "'a list"

datatype collective_error = GroupSizeMismatch | ShapeMismatch

datatype 'r outcome = Done 'r | Failed collective_error | Blocked

text \<open>
  One call of a collective: the group size, group key and instance key the caller passes,
  and the operand of the call.
\<close>

record 'x collective_call =
  c_group_size :: int
  c_group_key :: int
  c_instance_key :: int
  c_arg :: 'x

definition same_instance :: "'x collective_call \<Rightarrow> 'x collective_call \<Rightarrow> bool" where
  "same_instance c d = (c_group_key d = c_group_key c \<and> c_instance_key d = c_instance_key c)"

definition group_of :: "'x collective_call \<Rightarrow> 'x collective_call list \<Rightarrow> 'x collective_call list" where
  "group_of c cs = filter (same_instance c) cs"

text \<open>
  The calls that meet the call \<open>c\<close> among the calls \<open>cs\<close> issued: those with its group key
  and instance key. A declared group size that disagrees with that of \<open>c\<close>, or more
  participants than it declares, fails the call; with fewer participants it waits.
\<close>

definition rendezvous :: "'x collective_call \<Rightarrow> 'x collective_call list \<Rightarrow> ('x collective_call list) outcome" where
  "rendezvous c cs =
     (let grp = group_of c cs in
      if list_ex (\<lambda>d. c_group_size d \<noteq> c_group_size c) grp \<or> c_group_size c < int (length grp)
      then Failed GroupSizeMismatch
      else if int (length grp) < c_group_size c then Blocked
      else Done grp)"

definition tensor_map2 :: "('a \<Rightarrow> 'a \<Rightarrow> 'a) \<Rightarrow> 'a tensor \<Rightarrow> 'a tensor \<Rightarrow> 'a tensor" where
  "tensor_map2 f a b = a\<lparr> t_elems := map2 f (t_elems a) (t_elems b) \<rparr>"

definition tensor_add :: "('a::linordered_field) tensor \<Rightarrow> 'a tensor \<Rightarrow> 'a tensor" where
  "tensor_add a b = tensor_map2 (+) a b"

definition tensor_div :: "('a::linordered_field) tensor \<Rightarrow> int \<Rightarrow> 'a tensor" where
  "tensor_div a n = a\<lparr> t_elems := map (\<lambda>x. x / of_int n) (t_elems a) \<rparr>"

fun merge_fn :: "reduce_op \<Rightarrow> ('a::linordered_field) \<Rightarrow> 'a \<Rightarrow> 'a" where
  "merge_fn ReduceOp_SUM = (+)"
| "merge_fn ReduceOp_MEAN = (+)"
| "merge_fn ReduceOp_MAX = max"
| "merge_fn ReduceOp_MIN = min"

definition merge_all :: "reduce_op \<Rightarrow> ('a::linordered_field) tensor list \<Rightarrow> 'a tensor option" where
  "merge_all op ts =
     (case ts of [] \<Rightarrow> None | t # rest \<Rightarrow> Some (foldl (tensor_map2 (merge_fn op)) t rest))"

definition finish :: "reduce_op \<Rightarrow> int \<Rightarrow> ('a::linordered_field) tensor \<Rightarrow> 'a tensor" where
  "finish op n t = (if op = ReduceOp_MEAN then tensor_div t n else t)"

text \<open>
  \<^verbatim>\<open>all_reduce\<close>: the operand of a call is the rank of the device the call is placed on and
  the tensor on it. The result of the call \<open>c\<close> among the calls \<open>cs\<close>.
\<close>

definition all_reduce_result ::
  "reduce_op \<Rightarrow> (nat \<times> ('a::linordered_field) tensor) collective_call list \<Rightarrow> (nat \<times> 'a tensor) collective_call \<Rightarrow>
     'a tensor outcome" where
  "all_reduce_result op cs c =
     (case rendezvous c cs of
        Done grp \<Rightarrow>
          (case merge_all op (map (snd \<circ> c_arg) (sort_key (fst \<circ> c_arg) grp)) of
             None \<Rightarrow> Blocked
           | Some t \<Rightarrow> Done (finish op (c_group_size c) t))
      | Failed e \<Rightarrow> Failed e
      | Blocked \<Rightarrow> Blocked)"

definition all_reduce ::
  "reduce_op \<Rightarrow> (nat \<times> ('a::linordered_field) tensor) collective_call list \<Rightarrow> 'a tensor outcome list" where
  "all_reduce op cs = map (all_reduce_result op cs) cs"

text \<open>
  \<^verbatim>\<open>all_gather\<close>: concatenation along the first axis, in ascending rank. The shapes must
  agree; as the repository's tests \<^verbatim>\<open>testCollectiveGatherShapeMismatch\<close> and
  \<^verbatim>\<open>testCollectiveGatherShapeMismatchAcrossDevices\<close> have it, a different first dimension
  is a shape mismatch too, and a scalar has no axis to concatenate along.
\<close>

definition gathered :: "'a tensor list \<Rightarrow> 'a tensor \<Rightarrow> 'a tensor" where
  "gathered ts t =
     \<lparr> t_shape = (length ts * hd (t_shape t)) # tl (t_shape t),
       t_dtype = t_dtype t,
       t_elems = concat (map t_elems ts) \<rparr>"

definition all_gather_result ::
  "(nat \<times> 'a tensor) collective_call list \<Rightarrow> (nat \<times> 'a tensor) collective_call \<Rightarrow> 'a tensor outcome" where
  "all_gather_result cs c =
     (case rendezvous c cs of
        Done grp \<Rightarrow>
          (let ts = map (snd \<circ> c_arg) (sort_key (fst \<circ> c_arg) grp); t = snd (c_arg c) in
           if t_shape t \<noteq> [] \<and> list_all (\<lambda>u. t_shape u = t_shape t \<and> t_dtype u = t_dtype t) ts
           then Done (gathered ts t)
           else Failed ShapeMismatch)
      | Failed e \<Rightarrow> Failed e
      | Blocked \<Rightarrow> Blocked)"

definition all_gather :: "(nat \<times> 'a tensor) collective_call list \<Rightarrow> 'a tensor outcome list" where
  "all_gather cs = map (all_gather_result cs) cs"

text \<open>
  \<^verbatim>\<open>broadcast_send(t, shape, dtype, ...)\<close> and \<^verbatim>\<open>broadcast_recv(shape, dtype, ...)\<close>. With
  one sender in the group and every declared shape and dtype equal to those of the tensor
  sent, each call yields that tensor. The spec says nothing of a group with no sender or
  with several; the model lets such a group wait.
\<close>

datatype 'a bcast = Send "'a tensor" "nat list" dtype | Recv "nat list" dtype

fun sent :: "'a bcast \<Rightarrow> 'a tensor option" where
  "sent (Send t sh dt) = Some t"
| "sent (Recv sh dt) = None"

fun declared :: "'a bcast \<Rightarrow> nat list \<times> dtype" where
  "declared (Send t sh dt) = (sh, dt)"
| "declared (Recv sh dt) = (sh, dt)"

definition broadcast_result :: "'a bcast collective_call list \<Rightarrow> 'a bcast collective_call \<Rightarrow> 'a tensor outcome" where
  "broadcast_result cs c =
     (case rendezvous c cs of
        Done grp \<Rightarrow>
          (case List.map_filter (sent \<circ> c_arg) grp of
             [t] \<Rightarrow>
               if list_all (\<lambda>d. declared (c_arg d) = (t_shape t, t_dtype t)) grp
               then Done t else Failed ShapeMismatch
           | _ \<Rightarrow> Blocked)
      | Failed e \<Rightarrow> Failed e
      | Blocked \<Rightarrow> Blocked)"

subsection \<open>Initial values of variables\<close>

text \<open>
  What \<^verbatim>\<open>kwargs["initial_value"]\<close> can be: something \<^verbatim>\<open>convert_to_tensor\<close> is given, a
  \<^verbatim>\<open>CheckpointInitialValue\<close> wrapping a value, or a callable returning a value.
\<close>

datatype 'a initial_value =
    TensorLike "'a tensor"
  | CheckpointInitialValue "'a initial_value"
  | Callable "'a initial_value"

text \<open>
  Lines 434--441: call a callable, unwrap a checkpoint value, assert that what is left is
  not callable, convert. \<^verbatim>\<open>ops.convert_to_tensor\<close> is a parameter.
\<close>

definition evaluate_initial_value ::
  "('a initial_value \<Rightarrow> dtype option \<Rightarrow> py_error + 'a tensor) \<Rightarrow> 'a initial_value \<Rightarrow>
     dtype option \<Rightarrow> py_error + 'a tensor" where
  "evaluate_initial_value convert_to_tensor iv dt =
     (let v1 = (case iv of Callable r \<Rightarrow> r | _ \<Rightarrow> iv);
          v2 = (case v1 of CheckpointInitialValue w \<Rightarrow> w | _ \<Rightarrow> v1)
      in case v2 of
           Callable r \<Rightarrow> Inl AssertionError
         | _ \<Rightarrow> convert_to_tensor v2 dt)"

text \<open>
  What the function returned for replica 0 does when it is called: it returns the initial
  value; or it issues \<^verbatim>\<open>broadcast_send\<close> and returns the initial value under a control
  dependency on the send; or it returns the result of \<^verbatim>\<open>broadcast_recv\<close>. For another
  replica the method of the super class decides.
\<close>

datatype 'a creator_result =
    InitialValue "'a tensor"
  | SendInitialValue "'a bcast collective_call" "'a tensor"
  | RecvInitialValue "'a bcast collective_call"
  | Delegated

text \<open>
  \<^verbatim>\<open>initial_value_fn\<close> (lines 426--455). The group key and the instance key come from the
  strategy's \<^verbatim>\<open>CollectiveKeys\<close> (\<^verbatim>\<open>cross_device_utils.py\<close>, not among the sources) and are
  parameters.
\<close>

definition initial_value_fn ::
  "('a initial_value \<Rightarrow> dtype option \<Rightarrow> py_error + 'a tensor) \<Rightarrow> extended \<Rightarrow> int \<Rightarrow> int \<Rightarrow>
     'a initial_value \<Rightarrow> dtype option \<Rightarrow> py_error + 'a creator_result" where
  "initial_value_fn convert_to_tensor s group_key collective_instance_key iv dt =
     (let group_size = num_workers s in
      case evaluate_initial_value convert_to_tensor iv dt of
        Inl e \<Rightarrow> Inl e
      | Inr initial_value \<Rightarrow>
          if num_workers s > 1 then
            if is_chief s then
              Inr (SendInitialValue
                     \<lparr> c_group_size = group_size, c_group_key = group_key,
                       c_instance_key = collective_instance_key,
                       c_arg = Send initial_value (t_shape initial_value) (t_dtype initial_value) \<rparr>
                     initial_value)
            else
              Inr (RecvInitialValue
                     \<lparr> c_group_size = group_size, c_group_key = group_key,
                       c_instance_key = collective_instance_key,
                       c_arg = Recv (t_shape initial_value) (t_dtype initial_value) \<rparr>)
          else Inr (InitialValue initial_value))"

text \<open>\<^verbatim>\<open>_get_variable_creator_initial_value\<close> (lines 417--464).\<close>

definition get_variable_creator_initial_value ::
  "('a initial_value \<Rightarrow> dtype option \<Rightarrow> py_error + 'a tensor) \<Rightarrow> extended \<Rightarrow> int \<Rightarrow>
     string option \<Rightarrow> 'v option \<Rightarrow> int \<Rightarrow> int \<Rightarrow> 'a initial_value \<Rightarrow> dtype option \<Rightarrow>
     py_error + 'a creator_result" where
  "get_variable_creator_initial_value convert_to_tensor s replica_id device primary_var
       group_key collective_instance_key iv dt =
     (if replica_id = 0 then
        if device = None then Inl AssertionError
        else if primary_var \<noteq> None then Inl AssertionError
        else initial_value_fn convert_to_tensor s group_key collective_instance_key iv dt
      else Inr Delegated)"

text \<open>
  One variable created on every worker of a cluster: each worker runs the method for its
  replica 0 with its own strategy object and its own initial value, and the broadcasts
  they issue meet.
\<close>

record 'a worker =
  w_strategy :: extended
  w_device :: string
  w_initial_value :: "'a initial_value"
  w_dtype :: "dtype option"

definition worker_result ::
  "('a initial_value \<Rightarrow> dtype option \<Rightarrow> py_error + 'a tensor) \<Rightarrow> int \<Rightarrow> int \<Rightarrow> 'a worker \<Rightarrow>
     py_error + 'a creator_result" where
  "worker_result convert_to_tensor group_key instance_key w =
     get_variable_creator_initial_value convert_to_tensor (w_strategy w) 0 (Some (w_device w))
       (None :: unit option) group_key instance_key (w_initial_value w) (w_dtype w)"

fun issued :: "py_error + 'a creator_result \<Rightarrow> 'a bcast collective_call option" where
  "issued (Inr (SendInitialValue c t)) = Some c"
| "issued (Inr (RecvInitialValue c)) = Some c"
| "issued _ = None"

fun resolve :: "'a bcast collective_call list \<Rightarrow> py_error + 'a creator_result \<Rightarrow> py_error + 'a tensor outcome" where
  "resolve cs (Inl e) = Inl e"
| "resolve cs (Inr (InitialValue t)) = Inr (Done t)"
| "resolve cs (Inr (SendInitialValue c t)) =
     Inr (case broadcast_result cs c of Done u \<Rightarrow> Done t | Failed e \<Rightarrow> Failed e | Blocked \<Rightarrow> Blocked)"
| "resolve cs (Inr (RecvInitialValue c)) = Inr (broadcast_result cs c)"
| "resolve cs (Inr Delegated) = Inr Blocked"

definition broadcast_initial_value ::
  "('a initial_value \<Rightarrow> dtype option \<Rightarrow> py_error + 'a tensor) \<Rightarrow> int \<Rightarrow> int \<Rightarrow> 'a worker list \<Rightarrow>
     (py_error + 'a tensor outcome) list" where
  "broadcast_initial_value convert_to_tensor group_key instance_key ws =
     (let rs = map (worker_result convert_to_tensor group_key instance_key) ws
      in map (resolve (List.map_filter issued rs)) rs)"

text \<open>
  Calls for examples: a vector on the device of a given rank, with group key 1 and
  instance key 1 as in the repository's tests, and a broadcast call of group key 1 and
  instance key 1.
\<close>

definition on_device :: "nat \<Rightarrow> int \<Rightarrow> 'a list \<Rightarrow> (nat \<times> 'a tensor) collective_call" where
  "on_device r n xs =
     \<lparr> c_group_size = n, c_group_key = 1, c_instance_key = 1,
       c_arg = (r, \<lparr> t_shape = [length xs], t_dtype = Float32, t_elems = xs \<rparr>) \<rparr>"

definition bcast_call :: "int \<Rightarrow> 'a bcast \<Rightarrow> 'a bcast collective_call" where
  "bcast_call n b = \<lparr> c_group_size = n, c_group_key = 1, c_instance_key = 1, c_arg = b \<rparr>"

definition vector :: "'a list \<Rightarrow> 'a tensor" where
  "vector xs = \<lparr> t_shape = [length xs], t_dtype = Float32, t_elems = xs \<rparr>"

text \<open>
  The two calls the workers of a cluster of \<open>n\<close> workers issue for a variable whose initial
  value on the chief is \<open>v\<close>: the chief's \<^verbatim>\<open>broadcast_send\<close> and a non-chief's
  \<^verbatim>\<open>broadcast_recv\<close>.
\<close>

definition send_call :: "int \<Rightarrow> int \<Rightarrow> int \<Rightarrow> 'a tensor \<Rightarrow> 'a bcast collective_call" where
  "send_call n gk ik v =
     \<lparr> c_group_size = n, c_group_key = gk, c_instance_key = ik,
       c_arg = Send v (t_shape v) (t_dtype v) \<rparr>"

definition recv_call :: "int \<Rightarrow> int \<Rightarrow> int \<Rightarrow> 'a tensor \<Rightarrow> 'a bcast collective_call" where
  "recv_call n gk ik v =
     \<lparr> c_group_size = n, c_group_key = gk, c_instance_key = ik,
       c_arg = Recv (t_shape v) (t_dtype v) \<rparr>"

definition call_of :: "int \<Rightarrow> int \<Rightarrow> int \<Rightarrow> 'a tensor \<Rightarrow> 'a worker \<Rightarrow> 'a bcast collective_call" where
  "call_of n gk ik v w =
     (if is_chief (w_strategy w) then send_call n gk ik v else recv_call n gk ik v)"

text \<open>
  For examples: a \<^verbatim>\<open>convert_to_tensor\<close> that takes a tensor as it is (with the dtype asked
  for, if one is), and two workers of a cluster of two, the chief starting from the vector
  \<open>[1, 2, 3]\<close> returned by a callable, the other from \<open>[7, 8, 9]\<close>.
\<close>

fun convert_plain :: "'a initial_value \<Rightarrow> dtype option \<Rightarrow> py_error + 'a tensor" where
  "convert_plain (TensorLike t) None = Inr t"
| "convert_plain (TensorLike t) (Some d) = Inr (t\<lparr> t_dtype := d \<rparr>)"
| "convert_plain _ _ = Inl (ValueError ''cannot convert to a tensor'')"

definition chief_worker :: "rat worker" where
  "chief_worker =
     \<lparr> w_strategy = class_defaults\<lparr> num_workers := 2, is_chief := True \<rparr>,
       w_device = ''/job:worker/task:0'',
       w_initial_value = Callable (TensorLike (vector [1, 2, 3])),
       w_dtype = None \<rparr>"

definition other_worker :: "rat worker" where
  "other_worker =
     \<lparr> w_strategy = class_defaults\<lparr> num_workers := 2, is_chief := False \<rparr>,
       w_device = ''/job:worker/task:1'',
       w_initial_value = TensorLike (vector [7, 8, 9]),
       w_dtype = None \<rparr>"

section \<open>Properties\<close>

subsection \<open>Traces of the health monitor\<close>

lemma no_abort_failed_probes [simp]: "no_abort (failed_probes peer es)"
  by (induction es) (auto simp: no_abort_def failed_probes_def)

lemma no_abort_append [simp]: "no_abort (xs @ ys) = (no_abort xs \<and> no_abort ys)"
  by (auto simp: no_abort_def)

lemma failed_probes_Cons:
  "Probe peer (Raises e msg) # failed_probes peer es = failed_probes peer ((e, msg) # es)"
  by (simp add: failed_probes_def)

lemma transient_iff: "is_transient e = (e = UnavailableError \<or> e = FailedPreconditionError)"
  by (cases e) auto

lemma check_peer_trace:
  "check_peer s env peer a m = (f, m') \<Longrightarrow>
     \<exists>es. (\<forall>e\<in>set es. is_transient (fst e)) \<and>
       (case f of
          Continue \<Rightarrow> trace m' = trace m @ failed_probes peer es @ [Probe peer Healthy]
        | Return \<Rightarrow>
            (trace m' = trace m @ failed_probes peer es @ [Abort UNAVAILABLE (down_message peer)] \<and>
             int (length es) = max 1 (check_health_retry_limit s - a)) \<or>
            (\<exists>e msg. \<not> is_transient e \<and>
               trace m' = trace m @ failed_probes peer es @
                 [Probe peer (Raises e msg), Abort INTERNAL (unexpected_message msg)]))"
proof (induction s env peer a m arbitrary: f m' rule: check_peer.induct)
  case (1 s env peer attempts m)
  define r where "r = probe env (probes_done m) peer"
  define m1 where "m1 = record_event (Probe peer r) (m\<lparr>probes_done := Suc (probes_done m)\<rparr>)"
  have tr1: "trace m1 = trace m @ [Probe peer r]"
    by (simp add: m1_def record_event_def)
  show ?case
  proof (cases r)
    case Healthy
    with "1.prems" have "f = Continue" "m' = m1"
      by (simp_all add: check_peer.simps [of s env peer attempts m] r_def m1_def Let_def)
    then show ?thesis using tr1 Healthy
      by (intro exI [of _ "[]"]) (simp add: failed_probes_def)
  next
    case (Raises e msg)
    show ?thesis
    proof (cases "is_transient e")
      case False
      with "1.prems" Raises have "f = Return"
        "m' = record_event (Abort INTERNAL (unexpected_message msg)) m1"
        by (simp_all add: check_peer.simps [of s env peer attempts m] r_def [symmetric] m1_def Let_def transient_iff)
      then show ?thesis using tr1 Raises False
        by (intro exI [of _ "[]"]) (auto simp: failed_probes_def record_event_def)
    next
      case True
      show ?thesis
      proof (cases "attempts + 1 < check_health_retry_limit s")
        case False
        with "1.prems" Raises True have "f = Return"
          "m' = record_event (Abort UNAVAILABLE (down_message peer)) m1"
          by (simp_all add: check_peer.simps [of s env peer attempts m] r_def [symmetric] m1_def Let_def transient_iff)
        then show ?thesis using tr1 Raises True False
          by (intro exI [of _ "[(e, msg)]"]) (auto simp: failed_probes_def record_event_def)
      next
        case lt: True
        with "1.prems" Raises True have rec: "check_peer s env peer (attempts + 1) m1 = (f, m')"
          by (simp add: check_peer.simps [of s env peer attempts m] r_def [symmetric] m1_def Let_def transient_iff)
        have tr: "e = UnavailableError \<or> e = FailedPreconditionError"
          using True by (simp add: transient_iff)
        from "1.IH" [OF r_def m1_def Raises tr lt rec]
        obtain es where es: "\<forall>e\<in>set es. is_transient (fst e)"
          and sh: "(case f of
          Continue \<Rightarrow> trace m' = trace m1 @ failed_probes peer es @ [Probe peer Healthy]
        | Return \<Rightarrow>
            (trace m' = trace m1 @ failed_probes peer es @ [Abort UNAVAILABLE (down_message peer)] \<and>
             int (length es) = max 1 (check_health_retry_limit s - (attempts + 1))) \<or>
            (\<exists>e msg. \<not> is_transient e \<and>
               trace m' = trace m1 @ failed_probes peer es @
                 [Probe peer (Raises e msg), Abort INTERNAL (unexpected_message msg)]))"
          by blast
        show ?thesis
          using es sh True lt tr1 Raises
          by (intro exI [of _ "(e, msg) # es"]) (auto simp: failed_probes_def split: flow.splits)
      qed
    qed
  qed
qed

lemma declared_down_prepend:
  "declared_down s a added msg \<Longrightarrow> declared_down s a (xs @ added) msg"
  unfolding declared_down_def
  by (metis append.assoc)

lemma aborted_tail_prepend:
  "aborted_tail s (tr @ xs) tr' \<Longrightarrow> no_abort xs \<Longrightarrow> aborted_tail s tr tr'"
  unfolding aborted_tail_def
  by (metis append.assoc declared_down_prepend no_abort_append)

lemma quiet_tail_prepend:
  "quiet_tail (tr @ xs) tr' \<Longrightarrow> no_abort xs \<Longrightarrow> quiet_tail tr tr'"
  unfolding quiet_tail_def
  by (metis append.assoc no_abort_append)

lemma quiet_tail_refl [simp]: "quiet_tail tr tr"
  by (simp add: quiet_tail_def no_abort_def)

lemma check_peer_summary:
  assumes "check_peer s env peer 0 m = (f, m')"
  shows "case f of Continue \<Rightarrow> quiet_tail (trace m) (trace m')
                 | Return \<Rightarrow> aborted_tail s (trace m) (trace m')"
proof -
  from check_peer_trace [OF assms] obtain es where
    es: "\<forall>e\<in>set es. is_transient (fst e)" and
    sh: "case f of
          Continue \<Rightarrow> trace m' = trace m @ failed_probes peer es @ [Probe peer Healthy]
        | Return \<Rightarrow>
            (trace m' = trace m @ failed_probes peer es @ [Abort UNAVAILABLE (down_message peer)] \<and>
             int (length es) = max 1 (check_health_retry_limit s - 0)) \<or>
            (\<exists>e msg. \<not> is_transient e \<and>
               trace m' = trace m @ failed_probes peer es @
                 [Probe peer (Raises e msg), Abort INTERNAL (unexpected_message msg)])"
    by blast
  show ?thesis
  proof (cases f)
    case Continue
    with sh have "trace m' = trace m @ (failed_probes peer es @ [Probe peer Healthy])" by simp
    moreover have "no_abort (failed_probes peer es @ [Probe peer Healthy])"
      by (simp add: no_abort_def [of "[_]"])
    ultimately show ?thesis using Continue unfolding quiet_tail_def by auto
  next
    case Return
    with sh consider
      (down) "trace m' = trace m @ failed_probes peer es @ [Abort UNAVAILABLE (down_message peer)]"
             "int (length es) = max 1 (check_health_retry_limit s - 0)"
      | (unexpected) e msg where "\<not> is_transient e"
          "trace m' = trace m @ failed_probes peer es @
                 [Probe peer (Raises e msg), Abort INTERNAL (unexpected_message msg)]"
      by auto
    then show ?thesis
    proof cases
      case down
      have "declared_down s 0 (failed_probes peer es) (down_message peer)"
        unfolding declared_down_def using es down(2)
        by (intro exI [of _ "[]"] exI [of _ peer] exI [of _ es]) simp
      with down(1) have "aborted_tail s (trace m) (trace m')"
        unfolding aborted_tail_def by (metis no_abort_failed_probes)
      then show ?thesis using Return by simp
    next
      case unexpected
      have "trace m' = trace m @ (failed_probes peer es @ [Probe peer (Raises e msg)]) @
              [Abort INTERNAL (unexpected_message msg)]"
        using unexpected(2) by simp
      moreover have "no_abort (failed_probes peer es @ [Probe peer (Raises e msg)])"
        by (simp add: no_abort_def [of "[_]"])
      ultimately have "aborted_tail s (trace m) (trace m')"
        unfolding aborted_tail_def by blast
      then show ?thesis using Return by simp
    qed
  qed
qed

lemma check_peers_summary:
  "check_peers s env ps m = (f, m') \<Longrightarrow>
     (case f of Continue \<Rightarrow> quiet_tail (trace m) (trace m')
              | Return \<Rightarrow> aborted_tail s (trace m) (trace m'))"
proof (induction ps arbitrary: m)
  case Nil
  then show ?case by auto
next
  case (Cons peer ps)
  obtain f1 m1 where c1: "check_peer s env peer 0 m = (f1, m1)"
    by (cases "check_peer s env peer 0 m")
  note s1 = check_peer_summary [OF c1]
  show ?case
  proof (cases f1)
    case Return
    with Cons.prems c1 have "f = Return" "m' = m1" by simp_all
    with s1 Return show ?thesis by simp
  next
    case Continue
    with Cons.prems c1 have rest: "check_peers s env ps m1 = (f, m')" by simp
    from s1 Continue obtain added where a: "trace m1 = trace m @ added" "no_abort added"
      by (auto simp: quiet_tail_def)
    from Cons.IH [OF rest] show ?thesis
      using a by (auto split: flow.splits intro: quiet_tail_prepend aborted_tail_prepend)
  qed
qed

lemma check_health_summary:
  "check_health fuel s env m = (st, m') \<Longrightarrow>
     (if st = Aborted then aborted_tail s (trace m) (trace m') else quiet_tail (trace m) (trace m'))"
proof (induction fuel arbitrary: m)
  case 0
  then show ?case by auto
next
  case (Suc fuel)
  show ?case
  proof (cases "stop_is_set env (rounds m)")
    case True
    with Suc.prems show ?thesis by auto
  next
    case running: False
    show ?thesis
    proof (cases "cluster_spec s")
      case None
      with Suc.prems running show ?thesis by auto
    next
      case (Some cs)
      obtain f1 m1 where c1: "check_peers s env (peers cs) m = (f1, m1)"
        by (cases "check_peers s env (peers cs) m")
      note s1 = check_peers_summary [OF c1]
      show ?thesis
      proof (cases f1)
        case Return
        with Suc.prems running Some c1 have "st = Aborted" "m' = m1" by simp_all
        with s1 Return show ?thesis by simp
      next
        case Continue
        define m2 where
          "m2 = record_event (Sleep (check_health_interval s)) (m1\<lparr>rounds := Suc (rounds m1)\<rparr>)"
        from Suc.prems running Some c1 Continue
        have rest: "check_health fuel s env m2 = (st, m')" by (simp add: m2_def)
        from s1 Continue obtain added where a: "trace m1 = trace m @ added" "no_abort added"
          by (auto simp: quiet_tail_def)
        have t2: "trace m2 = trace m @ (added @ [Sleep (check_health_interval s)])"
          by (simp add: m2_def record_event_def a)
        have n2: "no_abort (added @ [Sleep (check_health_interval s)])"
          using a by (simp add: no_abort_def [of "[_]"])
        from Suc.IH [OF rest] show ?thesis
          unfolding t2 using n2
          by (auto split: if_splits intro: quiet_tail_prepend aborted_tail_prepend)
      qed
    qed
  qed
qed

lemma no_abort_set: "no_abort tr = (\<forall>e\<in>set tr. \<not> is_abort e)"
  by (auto simp: no_abort_def filter_empty_conv)

subsection \<open>Initialisation and the calls after it\<close>

lemma create_channels_sizes: "sizes_agree (create_channels rt cr tt tid s)"
  by (simp add: sizes_agree_def channel_sizes_def create_channels_def Let_def
      initialize_single_worker_def num_replicas_in_sync_def)

lemma start_thread_sizes:
  "channel_sizes (snd (start_check_health_thread rt s)) = channel_sizes s"
  by (simp add: start_check_health_thread_def thread_started_def channel_sizes_def
      num_replicas_in_sync_def Hints_def split: option.splits)

lemma stop_thread_sizes:
  "channel_sizes (snd (stop_check_health_thread s)) = channel_sizes s"
  by (simp add: stop_check_health_thread_def channel_sizes_def
      num_replicas_in_sync_def split: option.splits)

lemma start_thread_fields:
  "worker_devices (snd (start_check_health_thread rt s)) = worker_devices s"
  "num_workers (snd (start_check_health_thread rt s)) = num_workers s"
  by (simp_all add: start_check_health_thread_def thread_started_def Hints_def split: option.splits)

lemma start_thread_agree:
  "sizes_agree s \<Longrightarrow> sizes_agree (snd (start_check_health_thread rt s))"
  by (simp add: sizes_agree_def start_thread_sizes start_thread_fields)

lemma initialize_multi_worker_agree:
  assumes "initialize_multi_worker rt cr s = (None, s')"
  shows "sizes_agree s'"
proof -
  from assms obtain tt tid where t: "cr_task_type cr = Some tt" "cr_task_id cr = Some tid"
    by (auto simp: initialize_multi_worker_def Let_def split: option.splits)
  define cs where "cs = normalize_cluster_spec rt (cr_cluster_spec cr)"
  from assms t obtain idc where i: "id_in_cluster_of rt cs tt tid = Inr idc"
    by (auto simp: initialize_multi_worker_def Let_def cs_def split: sum.splits)
  from assms t i obtain nw where n: "worker_count rt cs tt = Inr nw"
    by (auto simp: initialize_multi_worker_def Let_def cs_def split: sum.splits)
  from assms t i n have nz: "nw \<noteq> 0"
    by (auto simp: initialize_multi_worker_def Let_def cs_def split: sum.splits if_splits)
  from assms t i n nz obtain ch where c: "is_chief_of rt cs tt tid = Inr ch"
    by (auto simp: initialize_multi_worker_def Let_def cs_def split: sum.splits)
  define s5 where "s5 = create_channels rt cr tt tid (enable_collectives rt
     (s\<lparr> cluster_spec := Some cs, task_type := Some tt, task_id := Some tid,
         id_in_cluster := idc, num_workers := nw, is_chief := ch,
         worker_device := job_task tt tid \<rparr>))"
  have a5: "sizes_agree s5" unfolding s5_def by (rule create_channels_sizes)
  from assms t i n nz c have
    "s' = (if enable_check_health s5 then snd (start_check_health_thread rt s5) else s5)"
    by (auto simp: initialize_multi_worker_def Let_def cs_def [symmetric] s5_def)
  with a5 show ?thesis by (simp add: start_thread_agree)
qed

lemma initialize_local_ok: "fst (initialize_local rt cr devices s) = None"
  by (simp add: initialize_local_def Let_def)

lemma initialize_local_agree: "sizes_agree (snd (initialize_local rt cr devices s))"
  by (simp add: initialize_local_def Let_def sizes_agree_def channel_sizes_def
      initialize_single_worker_def num_replicas_in_sync_def)

lemma initialize_strategy_agree:
  "initialize_strategy rt cr s = (None, s') \<Longrightarrow> sizes_agree s'"
  using initialize_local_agree [of rt cr None s]
  by (auto simp: initialize_strategy_def dest: initialize_multi_worker_agree split: if_splits)

lemma configure_agree:
  "cs \<noteq> [] \<Longrightarrow> configure rt (Some cs) tt tid s = (None, s') \<Longrightarrow> sizes_agree s'"
  by (auto simp: configure_def dest: initialize_multi_worker_agree)

lemma initialize_local_num_workers:
  "num_workers (snd (initialize_local rt cr devices s)) = 1"
  by (simp add: initialize_local_def Let_def initialize_single_worker_def)

lemma from_local_devices_local:
  assumes "from_local_devices rt tf_config devices comm = (None, s')"
  shows "\<exists>obj. s' = snd (initialize_local rt tf_config (Some devices) obj)"
proof -
  obtain e obj where c: "extended_init rt tf_config comm None = (e, obj)"
    by (cases "extended_init rt tf_config comm None")
  with assms have "initialize_local rt tf_config (Some devices) obj = (None, s')"
    by (cases e) (simp_all add: from_local_devices_def)
  then have "s' = snd (initialize_local rt tf_config (Some devices) obj)" by simp
  then show ?thesis ..
qed

lemma from_local_devices_agree:
  "from_local_devices rt tf_config devices comm = (None, s') \<Longrightarrow>
     sizes_agree s' \<and> num_workers s' = 1"
  using from_local_devices_local [of rt tf_config devices comm s']
  by (auto simp: initialize_local_agree initialize_local_num_workers)

lemma step_keeps_sizes:
  "\<not> reinitializes c \<Longrightarrow> channel_sizes (snd (step rt c s)) = channel_sizes s"
proof (cases c)
  case (Configure cspec tt tid)
  assume "\<not> reinitializes c"
  with Configure show ?thesis
    by (cases cspec) (auto simp: configure_def)
qed (simp_all add: start_thread_sizes stop_thread_sizes del_def)

lemma run_calls_keeps_sizes:
  "\<forall>c\<in>set calls. \<not> reinitializes c \<Longrightarrow> channel_sizes (run_calls rt calls s) = channel_sizes s"
  by (induction calls arbitrary: s) (simp_all add: step_keeps_sizes)

lemma step_reinitialize_agree:
  assumes "reinitializes c" "step rt c s = (None, s')"
  shows "sizes_agree s'"
proof (cases c)
  case (InitializeStrategy cr)
  with assms show ?thesis by (simp add: initialize_strategy_agree)
next
  case (InitializeLocal cr devices)
  with assms initialize_local_agree [of rt cr devices s] show ?thesis by simp
next
  case (InitializeMultiWorker cr)
  with assms show ?thesis by (simp add: initialize_multi_worker_agree)
next
  case (Configure cspec tt tid)
  with assms show ?thesis
    by (cases cspec) (auto dest: configure_agree)
qed (use assms in simp_all)

lemma initialize_multi_worker_topology:
  assumes "initialize_multi_worker rt cr s = (None, s')"
  shows "\<exists>tt tid. cr_task_type cr = Some tt \<and> cr_task_id cr = Some tid \<and>
           worker_devices s' =
             map (canonicalize rt) (local_devices (job_task tt tid) (resolver_num_gpus rt cr)) \<and>
           worker_count rt (normalize_cluster_spec rt (cr_cluster_spec cr)) tt = Inr (num_workers s')"
proof -
  from assms obtain tt tid where t: "cr_task_type cr = Some tt" "cr_task_id cr = Some tid"
    by (auto simp: initialize_multi_worker_def Let_def split: option.splits)
  define cs where "cs = normalize_cluster_spec rt (cr_cluster_spec cr)"
  from assms t obtain idc where i: "id_in_cluster_of rt cs tt tid = Inr idc"
    by (auto simp: initialize_multi_worker_def Let_def cs_def split: sum.splits)
  from assms t i obtain nw where n: "worker_count rt cs tt = Inr nw"
    by (auto simp: initialize_multi_worker_def Let_def cs_def split: sum.splits)
  from assms t i n have nz: "nw \<noteq> 0"
    by (auto simp: initialize_multi_worker_def Let_def cs_def split: sum.splits if_splits)
  from assms t i n nz obtain ch where c: "is_chief_of rt cs tt tid = Inr ch"
    by (auto simp: initialize_multi_worker_def Let_def cs_def split: sum.splits)
  define s5 where "s5 = create_channels rt cr tt tid (enable_collectives rt
     (s\<lparr> cluster_spec := Some cs, task_type := Some tt, task_id := Some tid,
         id_in_cluster := idc, num_workers := nw, is_chief := ch,
         worker_device := job_task tt tid \<rparr>))"
  have d5: "worker_devices s5 =
      map (canonicalize rt) (local_devices (job_task tt tid) (resolver_num_gpus rt cr))"
    and n5: "num_workers s5 = nw"
    unfolding s5_def
    by (simp_all add: create_channels_def enable_collectives_def Let_def initialize_single_worker_def)
  from assms t i n nz c have
    "s' = (if enable_check_health s5 then snd (start_check_health_thread rt s5) else s5)"
    by (auto simp: initialize_multi_worker_def Let_def cs_def [symmetric] s5_def)
  then have "worker_devices s' = worker_devices s5" "num_workers s' = num_workers s5"
    by (simp_all add: start_thread_fields)
  with d5 n5 t n show ?thesis by (simp add: cs_def)
qed

lemma start_check_health_thread_timeout:
  assumes "executing_eagerly rt"
    and "barrier rt \<lparr> bytes_per_pack = 0, timeout_seconds = Some (check_health_initial_timeout s) \<rparr>
           = Some DeadlineExceededError"
  shows "start_check_health_thread rt s =
           (Some (RuntimeError (timeout_message (check_health_initial_timeout s))), s)"
  using assms by (simp add: start_check_health_thread_def Hints_def barrier_error_def)

lemma create_channels_thread:
  "check_health_thread (create_channels rt cr tt tid (enable_collectives rt s)) = check_health_thread s"
  "check_health_thread_should_stop (create_channels rt cr tt tid (enable_collectives rt s)) =
     check_health_thread_should_stop s"
  "thread_log (create_channels rt cr tt tid (enable_collectives rt s)) = thread_log s"
  "check_health_initial_timeout (create_channels rt cr tt tid (enable_collectives rt s)) =
     check_health_initial_timeout s"
  "enable_check_health (create_channels rt cr tt tid (enable_collectives rt s)) =
     enable_check_health s"
  by (simp_all add: create_channels_def enable_collectives_def Let_def initialize_single_worker_def)

lemma check_peer_rounds: "rounds (snd (check_peer s env peer a m)) = rounds m"
proof (induction s env peer a m rule: check_peer.induct)
  case (1 s env peer attempts m)
  show ?case
    using 1 [OF refl refl]
    by (subst check_peer.simps)
       (auto simp: Let_def record_event_def split: probe_result.splits)
qed

lemma check_peers_rounds: "rounds (snd (check_peers s env ps m)) = rounds m"
proof (induction ps arbitrary: m)
  case Nil
  show ?case by simp
next
  case (Cons p ps)
  show ?case
    using check_peer_rounds [of s env p 0 m] Cons [of "snd (check_peer s env p 0 m)"]
    by (cases "check_peer s env p 0 m") (auto split: flow.splits)
qed

lemma check_health_stops:
  "stop_is_set env k \<Longrightarrow> rounds m \<le> k \<Longrightarrow> k - rounds m < fuel \<Longrightarrow>
     fst (check_health fuel s env m) \<noteq> OutOfFuel"
proof (induction fuel arbitrary: m)
  case 0
  then show ?case by simp
next
  case (Suc fuel)
  show ?case
  proof (cases "stop_is_set env (rounds m)")
    case True
    then show ?thesis by simp
  next
    case running: False
    with Suc.prems have lt: "rounds m < k"
      by (metis le_neq_implies_less)
    show ?thesis
    proof (cases "cluster_spec s")
      case None
      with running show ?thesis by simp
    next
      case (Some cs)
      obtain f1 m1 where c1: "check_peers s env (peers cs) m = (f1, m1)"
        by (cases "check_peers s env (peers cs) m")
      have r1: "rounds m1 = rounds m"
        using check_peers_rounds [of s env "peers cs" m] c1 by simp
      show ?thesis
      proof (cases f1)
        case Return
        with running Some c1 show ?thesis by simp
      next
        case Continue
        define m2 where
          "m2 = record_event (Sleep (check_health_interval s)) (m1\<lparr>rounds := Suc (rounds m1)\<rparr>)"
        have r2: "rounds m2 = Suc (rounds m)"
          by (simp add: m2_def record_event_def r1)
        have "fst (check_health fuel s env m2) \<noteq> OutOfFuel"
          using Suc.prems lt r2 by (intro Suc.IH) auto
        with running Some c1 Continue show ?thesis by (simp add: m2_def)
      qed
    qed
  qed
qed

subsection \<open>Collectives\<close>

lemma same_instance_sym: "same_instance c d \<Longrightarrow> same_instance d c"
  by (simp add: same_instance_def)

lemma same_instance_group: "same_instance c d \<Longrightarrow> group_of d cs = group_of c cs"
  unfolding group_of_def same_instance_def by (rule filter_cong) auto

lemma rendezvous_mismatch:
  assumes "d \<in> set cs" "same_instance c d" "c_group_size d \<noteq> c_group_size c"
  shows "rendezvous c cs = Failed GroupSizeMismatch"
proof -
  have "d \<in> set (group_of c cs)" using assms by (simp add: group_of_def)
  then have "list_ex (\<lambda>d. c_group_size d \<noteq> c_group_size c) (group_of c cs)"
    using assms(3) by (auto simp: list_ex_iff)
  then show ?thesis by (simp add: rendezvous_def Let_def)
qed

lemma rendezvous_pair:
  assumes "group_of p cs = [p, q] \<or> group_of p cs = [q, p]"
    and "c_group_size p = 2" "c_group_size q = 2"
  shows "rendezvous p cs = Done (group_of p cs)" "rendezvous q cs = Done (group_of p cs)"
proof -
  have "q \<in> set (group_of p cs)" using assms(1) by auto
  then have "same_instance p q" by (simp add: group_of_def)
  then have g: "group_of q cs = group_of p cs" by (rule same_instance_group)
  show "rendezvous p cs = Done (group_of p cs)"
    using assms by (auto simp: rendezvous_def Let_def)
  show "rendezvous q cs = Done (group_of p cs)"
    using assms by (auto simp: rendezvous_def Let_def g)
qed

lemma sort_pair:
  assumes "grp = [p, q] \<or> grp = [q, p]" "fst (c_arg p) = (0::nat)" "fst (c_arg q) = 1"
  shows "map (snd \<circ> c_arg) (sort_key (fst \<circ> c_arg) grp) = [snd (c_arg p), snd (c_arg q)]"
  using assms by auto

lemma rendezvous_all:
  assumes "\<forall>d\<in>set cs. same_instance c d" "\<forall>d\<in>set cs. c_group_size d = int (length cs)"
    "c \<in> set cs"
  shows "rendezvous c cs = Done cs"
proof -
  have g: "group_of c cs = cs" using assms(1) by (simp add: group_of_def)
  have "c_group_size c = int (length cs)" using assms by blast
  moreover have "\<not> list_ex (\<lambda>d. c_group_size d \<noteq> c_group_size c) cs"
    using assms by (auto simp: list_ex_iff)
  ultimately show ?thesis by (simp add: rendezvous_def g)
qed

lemma ranks_in_order:
  assumes "mset (map f cs) = mset [0..<length cs]"
  shows "map f (sort_key f cs) = [0..<length cs]"
proof -
  have "sort (map f cs) = [0..<length cs]"
    using assms by (intro properties_for_sort) simp_all
  moreover have "sort (map f cs) = map f (sort_key f cs)"
    by (intro properties_for_sort) simp_all
  ultimately show ?thesis by simp
qed

subsection \<open>The broadcast of initial values\<close>

lemma map_filter_all_Some:
  "(\<And>x. x \<in> set xs \<Longrightarrow> f x = Some (g x)) \<Longrightarrow> List.map_filter f xs = map g xs"
  by (induction xs) simp_all

lemma map_filter_of_map:
  "List.map_filter f (map g xs) = List.map_filter (\<lambda>x. f (g x)) xs"
  by (induction xs) (simp_all split: option.splits)

lemma map_filter_if_const:
  "List.map_filter (\<lambda>x. if P x then Some v else None) xs = map (\<lambda>x. v) (filter P xs)"
  by (induction xs) simp_all

lemma worker_result_chief:
  assumes "evaluate_initial_value conv (w_initial_value w) (w_dtype w) = Inr t"
    "1 < num_workers (w_strategy w)" "is_chief (w_strategy w)"
  shows "worker_result conv gk ik w =
           Inr (SendInitialValue (send_call (num_workers (w_strategy w)) gk ik t) t)"
  using assms
  by (simp add: worker_result_def get_variable_creator_initial_value_def initial_value_fn_def
      send_call_def)

lemma worker_result_other:
  assumes "evaluate_initial_value conv (w_initial_value w) (w_dtype w) = Inr t"
    "1 < num_workers (w_strategy w)" "\<not> is_chief (w_strategy w)"
  shows "worker_result conv gk ik w =
           Inr (RecvInitialValue (recv_call (num_workers (w_strategy w)) gk ik t))"
  using assms
  by (simp add: worker_result_def get_variable_creator_initial_value_def initial_value_fn_def
      recv_call_def)

lemma recv_call_cong:
  "t_shape t = t_shape v \<Longrightarrow> t_dtype t = t_dtype v \<Longrightarrow> recv_call n gk ik t = recv_call n gk ik v"
  by (simp add: recv_call_def)

lemma broadcast_meets:
  fixes ws :: "'a worker list"
  assumes chief: "filter (is_chief \<circ> w_strategy) ws = [wc]"
    and c: "c = send_call (int (length ws)) gk ik v \<or> c = recv_call (int (length ws)) gk ik v"
  shows "broadcast_result (map (call_of (int (length ws)) gk ik v) ws) c = Done v"
proof -
  let ?n = "int (length ws)"
  let ?cs = "map (call_of ?n gk ik v) ws"
  have g: "group_of c ?cs = ?cs"
    using c by (auto simp: group_of_def same_instance_def call_of_def send_call_def recv_call_def
        intro!: filter_True)
  have sz: "\<not> list_ex (\<lambda>d. c_group_size d \<noteq> c_group_size c) ?cs"
    using c by (auto simp: list_ex_iff call_of_def send_call_def recv_call_def)
  have n: "c_group_size c = int (length ?cs)"
    using c by (auto simp: send_call_def recv_call_def)
  have r: "rendezvous c ?cs = Done ?cs"
    using sz n by (simp add: rendezvous_def g)
  have "List.map_filter (sent \<circ> c_arg) ?cs =
          List.map_filter (\<lambda>w. if (is_chief \<circ> w_strategy) w then Some v else None) ws"
    unfolding map_filter_of_map
    by (rule arg_cong [where f = "\<lambda>h. List.map_filter h ws"])
       (auto simp: call_of_def send_call_def recv_call_def)
  also have "\<dots> = map (\<lambda>w. v) (filter (is_chief \<circ> w_strategy) ws)"
    by (rule map_filter_if_const)
  also have "\<dots> = [v]" by (simp add: chief)
  finally have s: "List.map_filter (sent \<circ> c_arg) ?cs = [v]" .
  have d: "list_all (\<lambda>d. declared (c_arg d) = (t_shape v, t_dtype v)) ?cs"
    by (auto simp: list_all_iff call_of_def send_call_def recv_call_def)
  show ?thesis
    unfolding broadcast_result_def r using s d by simp
qed

text \<open>
  C1. Two calls of \<^verbatim>\<open>all_reduce\<close> that meet (the same group key and instance key, and no
  third call with them), each declaring a group of size 2, placed on the devices of rank 0
  and rank 1 with the tensors \<open>a\<close> and \<open>b\<close>, in whatever order they are issued and whatever
  other collectives run beside them: with SUM both calls return \<open>a + b\<close>, with MEAN both
  return \<open>(a + b) / 2\<close>, element by element.
\<close>

theorem all_reduce_sum_and_mean_of_two:
  assumes grp: "group_of p cs = [p, q] \<or> group_of p cs = [q, p]"
    and sizes: "c_group_size p = 2" "c_group_size q = 2"
    and ranks: "fst (c_arg p) = 0" "fst (c_arg q) = 1"
  shows "all_reduce_result ReduceOp_SUM cs p = Done (tensor_add (snd (c_arg p)) (snd (c_arg q))) \<and>
         all_reduce_result ReduceOp_SUM cs q = Done (tensor_add (snd (c_arg p)) (snd (c_arg q))) \<and>
         all_reduce_result ReduceOp_MEAN cs p =
           Done (tensor_div (tensor_add (snd (c_arg p)) (snd (c_arg q))) 2) \<and>
         all_reduce_result ReduceOp_MEAN cs q =
           Done (tensor_div (tensor_add (snd (c_arg p)) (snd (c_arg q))) 2)"
  using rendezvous_pair [OF grp sizes] sort_pair [OF grp ranks] sizes
  by (simp add: all_reduce_result_def merge_all_def finish_def tensor_add_def)

text \<open>
  The vectors of the repository's test, shortened, with the call of rank 1 issued first:
  the sums are \<open>2/5\<close> and \<open>12/5\<close>, the means \<open>1/5\<close> and \<open>6/5\<close>, on both devices.
\<close>

theorem all_reduce_sum_and_mean_of_two_witness:
  "all_reduce_result ReduceOp_SUM
      [on_device 1 2 [3/10, 13/10 :: rat], on_device 0 2 [1/10, 11/10]]
      (on_device 0 2 [1/10, 11/10])
     = Done \<lparr> t_shape = [2], t_dtype = Float32, t_elems = [2/5, 12/5] \<rparr> \<and>
   all_reduce_result ReduceOp_SUM
      [on_device 1 2 [3/10, 13/10 :: rat], on_device 0 2 [1/10, 11/10]]
      (on_device 1 2 [3/10, 13/10])
     = Done \<lparr> t_shape = [2], t_dtype = Float32, t_elems = [2/5, 12/5] \<rparr> \<and>
   all_reduce_result ReduceOp_MEAN
      [on_device 1 2 [3/10, 13/10 :: rat], on_device 0 2 [1/10, 11/10]]
      (on_device 0 2 [1/10, 11/10])
     = Done \<lparr> t_shape = [2], t_dtype = Float32, t_elems = [1/5, 6/5] \<rparr> \<and>
   all_reduce_result ReduceOp_MEAN
      [on_device 1 2 [3/10, 13/10 :: rat], on_device 0 2 [1/10, 11/10]]
      (on_device 1 2 [3/10, 13/10])
     = Done \<lparr> t_shape = [2], t_dtype = Float32, t_elems = [1/5, 6/5] \<rparr>"
proof -
  let ?p = "on_device 0 2 [1/10, 11/10 :: rat]"
  let ?q = "on_device 1 2 [3/10, 13/10 :: rat]"
  have g: "group_of ?p [?q, ?p] = [?p, ?q] \<or> group_of ?p [?q, ?p] = [?q, ?p]"
    by (simp add: group_of_def same_instance_def on_device_def)
  have s: "c_group_size ?p = 2" "c_group_size ?q = 2" by (simp_all add: on_device_def)
  have r: "fst (c_arg ?p) = 0" "fst (c_arg ?q) = 1" by (simp_all add: on_device_def)
  have v: "tensor_add (snd (c_arg ?p)) (snd (c_arg ?q))
             = \<lparr> t_shape = [2], t_dtype = Float32, t_elems = [2/5, 12/5] \<rparr>"
    by (simp add: tensor_add_def tensor_map2_def on_device_def)
  have m: "tensor_div \<lparr> t_shape = [2], t_dtype = Float32, t_elems = [2/5, 12/5 :: rat] \<rparr> 2
             = \<lparr> t_shape = [2], t_dtype = Float32, t_elems = [1/5, 6/5] \<rparr>"
    by (simp add: tensor_div_def)
  from all_reduce_sum_and_mean_of_two [OF g s r] show ?thesis
    unfolding v m .
qed

text \<open>
  C2. A run of the health monitor from its start, for any cluster, any answers of the
  probes, any retry limit and any number of iterations of the loop. The retry limit is 3
  unless configured. A call of \<^verbatim>\<open>abort_collective_ops\<close> with \<^verbatim>\<open>UNAVAILABLE\<close> (a peer
  declared down) comes directly after consecutive failed probes of that one peer, as many
  as the retry limit (one, when the limit is below one), each failed with Unavailable or
  FailedPrecondition. Once the trace holds a call of \<^verbatim>\<open>abort_collective_ops\<close> the loop
  has returned, that call is the last event, and it is the only such call of the run.
\<close>

theorem check_health_aborts_once_after_retry_limit:
  assumes run: "check_health fuel s env monitor0 = (st, m)"
  shows "check_health_retry_limit class_defaults = 3 \<and>
    (\<forall>msg. Abort UNAVAILABLE msg \<in> set (trace m) \<longrightarrow>
       (\<exists>pre peer es. trace m = pre @ failed_probes peer es @ [Abort UNAVAILABLE msg] \<and>
          msg = down_message peer \<and> (\<forall>e\<in>set es. is_transient (fst e)) \<and>
          int (length es) = max 1 (check_health_retry_limit s))) \<and>
    ((\<exists>e\<in>set (trace m). is_abort e) \<longrightarrow>
       st = Aborted \<and> length (filter is_abort (trace m)) = 1 \<and> is_abort (last (trace m)))"
proof -
  note sm = check_health_summary [OF run]
  have quiet: "no_abort (trace m)" if "st \<noteq> Aborted"
    using sm that by (auto simp: quiet_tail_def monitor0_def)
  have tail: "\<exists>added c msg. trace m = added @ [Abort c msg] \<and> no_abort added \<and>
        (c = UNAVAILABLE \<longrightarrow> declared_down s 0 added msg)" if "st = Aborted"
    using sm that by (auto simp: aborted_tail_def monitor0_def)
  have p1: "check_health_retry_limit class_defaults = 3"
    by (simp add: class_defaults_def)
  have p2: "\<exists>pre peer es. trace m = pre @ failed_probes peer es @ [Abort UNAVAILABLE msg] \<and>
          msg = down_message peer \<and> (\<forall>e\<in>set es. is_transient (fst e)) \<and>
          int (length es) = max 1 (check_health_retry_limit s)"
    if mem: "Abort UNAVAILABLE msg \<in> set (trace m)" for msg
  proof -
    have "st = Aborted"
      using quiet mem by (fastforce simp: no_abort_set)
    from tail [OF this] obtain added c msg' where
      t: "trace m = added @ [Abort c msg']" "no_abort added"
         "c = UNAVAILABLE \<longrightarrow> declared_down s 0 added msg'" by blast
    from mem t(1,2) have "c = UNAVAILABLE" "msg' = msg"
      by (auto simp: no_abort_set)
    with t show ?thesis
      unfolding declared_down_def by auto
  qed
  have p3: "st = Aborted \<and> length (filter is_abort (trace m)) = 1 \<and> is_abort (last (trace m))"
    if ex: "\<exists>e\<in>set (trace m). is_abort e"
  proof -
    have a: "st = Aborted"
      using quiet ex by (auto simp: no_abort_set)
    from tail [OF this] obtain added c msg' where
      t: "trace m = added @ [Abort c msg']" "no_abort added" by blast
    then show ?thesis using a by (simp add: no_abort_def)
  qed
  show ?thesis using p1 p2 p3 by blast
qed

text \<open>
  With the default retry limit and two workers of which the second never answers, the
  first pass probes worker 0 once, worker 1 three times, aborts once and returns.
\<close>

theorem check_health_aborts_once_after_retry_limit_witness:
  "check_health 1 (class_defaults\<lparr>cluster_spec := Some two_workers\<rparr>) worker1_down monitor0
     = (Aborted, \<lparr>probes_done = 4, rounds = 0, trace = worker1_down_trace\<rparr>) \<and>
   (\<exists>pre peer es. worker1_down_trace = pre @ failed_probes peer es @
        [Abort UNAVAILABLE ''cluster check alive failed, /job:worker/replica:0/task:1 is down''] \<and>
      int (length es) = 3) \<and>
   length (filter is_abort worker1_down_trace) = 1"
proof -
  have ev: "check_health 1 (class_defaults\<lparr>cluster_spec := Some two_workers\<rparr>) worker1_down monitor0
    = (Aborted, \<lparr>probes_done = 4, rounds = 0, trace = worker1_down_trace\<rparr>)"
    by code_simp
  have mem: "Abort UNAVAILABLE ''cluster check alive failed, /job:worker/replica:0/task:1 is down''
      \<in> set worker1_down_trace"
    by (simp add: worker1_down_trace_def)
  have lim: "check_health_retry_limit (class_defaults\<lparr>cluster_spec := Some two_workers\<rparr>) = 3"
    by (simp add: class_defaults_def)
  note c = check_health_aborts_once_after_retry_limit [OF ev]
  from c have "\<forall>msg. Abort UNAVAILABLE msg \<in> set worker1_down_trace \<longrightarrow>
       (\<exists>pre peer es. worker1_down_trace = pre @ failed_probes peer es @ [Abort UNAVAILABLE msg] \<and>
          msg = down_message peer \<and> (\<forall>e\<in>set es. is_transient (fst e)) \<and>
          int (length es) = 3)"
    by (simp add: lim)
  with mem have a: "\<exists>pre peer es. worker1_down_trace = pre @ failed_probes peer es @
        [Abort UNAVAILABLE ''cluster check alive failed, /job:worker/replica:0/task:1 is down''] \<and>
      int (length es) = 3"
    by blast
  from c have "(\<exists>e\<in>set worker1_down_trace. is_abort e) \<longrightarrow>
      length (filter is_abort worker1_down_trace) = 1"
    by simp
  moreover have "\<exists>e\<in>set worker1_down_trace. is_abort e"
    using mem by (rule bexI [rotated]) simp
  ultimately have b: "length (filter is_abort worker1_down_trace) = 1"
    by blast
  from ev a b show ?thesis by blast
qed

text \<open>
  C4. Two calls of a collective (\<^verbatim>\<open>all_reduce\<close> with any operator, \<^verbatim>\<open>all_gather\<close>, or a
  broadcast) among the calls issued, with the same group key and instance key but
  different declared group sizes: each of the two fails with \<open>GroupSizeMismatch\<close>; a
  failed call carries no tensor, so neither gets a result, partial or complete.
\<close>

theorem group_size_mismatch_fails_both:
  "(c \<in> set cs \<and> d \<in> set cs \<and> same_instance c d \<and> c_group_size c \<noteq> c_group_size d \<longrightarrow>
      all_reduce_result op cs c = Failed GroupSizeMismatch \<and>
      all_reduce_result op cs d = Failed GroupSizeMismatch \<and>
      all_gather_result cs c = Failed GroupSizeMismatch \<and>
      all_gather_result cs d = Failed GroupSizeMismatch) \<and>
   (x \<in> set xs \<and> y \<in> set xs \<and> same_instance x y \<and> c_group_size x \<noteq> c_group_size y \<longrightarrow>
      broadcast_result xs x = Failed GroupSizeMismatch \<and>
      broadcast_result xs y = Failed GroupSizeMismatch)"
proof -
  have r: "rendezvous a as = Failed GroupSizeMismatch \<and> rendezvous b as = Failed GroupSizeMismatch"
    if "a \<in> set as" "b \<in> set as" "same_instance a b" "c_group_size a \<noteq> c_group_size b"
    for a b :: "'z collective_call" and as
    using that rendezvous_mismatch [of b as a] rendezvous_mismatch [of a as b]
    by (auto dest: same_instance_sym)
  show ?thesis
    using r [of c cs d] r [of x xs y]
    by (auto simp: all_reduce_result_def all_gather_result_def broadcast_result_def)
qed

text \<open>
  The repository's test \<^verbatim>\<open>testCollectiveGroupSizeMismatch\<close>: group size 2 on rank 0, group
  size 3 on rank 1; and a broadcast whose sender says 2 and whose receiver says 3.
\<close>

theorem group_size_mismatch_fails_both_witness:
  "all_reduce ReduceOp_SUM [on_device 0 2 [1, 2, 3, 4 :: rat], on_device 1 3 [5, 6, 7, 8]]
     = [Failed GroupSizeMismatch, Failed GroupSizeMismatch] \<and>
   all_gather [on_device 0 2 [1, 2, 3, 4 :: rat], on_device 1 3 [5, 6, 7, 8]]
     = [Failed GroupSizeMismatch, Failed GroupSizeMismatch] \<and>
   map (broadcast_result
          [bcast_call 2 (Send (vector [1 :: rat]) [1] Float32), bcast_call 3 (Recv [1] Float32)])
       [bcast_call 2 (Send (vector [1 :: rat]) [1] Float32), bcast_call 3 (Recv [1] Float32)]
     = [Failed GroupSizeMismatch, Failed GroupSizeMismatch]"
proof -
  let ?c = "on_device 0 2 [1, 2, 3, 4 :: rat]"
  let ?d = "on_device 1 3 [5, 6, 7, 8 :: rat]"
  let ?x = "bcast_call 2 (Send (vector [1 :: rat]) [1] Float32)"
  let ?y = "bcast_call 3 (Recv [1] Float32) :: rat bcast collective_call"
  have h1: "?c \<in> set [?c, ?d] \<and> ?d \<in> set [?c, ?d] \<and> same_instance ?c ?d \<and>
      c_group_size ?c \<noteq> c_group_size ?d"
    by (simp add: same_instance_def on_device_def)
  have h2: "?x \<in> set [?x, ?y] \<and> ?y \<in> set [?x, ?y] \<and> same_instance ?x ?y \<and>
      c_group_size ?x \<noteq> c_group_size ?y"
    by (simp add: same_instance_def bcast_call_def)
  from group_size_mismatch_fails_both [of ?c "[?c, ?d]" ?d ReduceOp_SUM ?x "[?x, ?y]" ?y] h1 h2
  have "all_reduce_result ReduceOp_SUM [?c, ?d] ?c = Failed GroupSizeMismatch"
    "all_reduce_result ReduceOp_SUM [?c, ?d] ?d = Failed GroupSizeMismatch"
    "all_gather_result [?c, ?d] ?c = Failed GroupSizeMismatch"
    "all_gather_result [?c, ?d] ?d = Failed GroupSizeMismatch"
    "broadcast_result [?x, ?y] ?x = Failed GroupSizeMismatch"
    "broadcast_result [?x, ?y] ?y = Failed GroupSizeMismatch"
    by blast+
  then show ?thesis by (simp add: all_reduce_def all_gather_def)
qed

text \<open>
  C5. In eager mode, when the barrier (the dummy reduce on the host channel, run under a
  hint carrying the initial timeout, together with the wait that follows it in async mode)
  raises \<^verbatim>\<open>DeadlineExceededError\<close>, \<^verbatim>\<open>_start_check_health_thread\<close> raises the
  \<^verbatim>\<open>RuntimeError\<close> "Timeout waiting for the cluster" (the spec's ClusterNotReady) and leaves
  the object as it found it. A multi-worker initialisation with health checks enabled that
  gets as far as the barrier raises that same error, and the monitor thread is neither
  created nor started: the thread handle, the stop event and the log of thread actions
  are what they were before the initialisation.
\<close>

theorem barrier_timeout_raises_and_monitor_never_starts:
  assumes eager: "executing_eagerly rt"
    and timeout: "barrier rt \<lparr> bytes_per_pack = 0,
                    timeout_seconds = Some (check_health_initial_timeout s) \<rparr>
                  = Some DeadlineExceededError"
    and enabled: "enable_check_health s"
    and task: "cr_task_type cr = Some tt" "cr_task_id cr = Some tid"
    and topo: "id_in_cluster_of rt (normalize_cluster_spec rt (cr_cluster_spec cr)) tt tid = Inr idc"
      "worker_count rt (normalize_cluster_spec rt (cr_cluster_spec cr)) tt = Inr nw" "nw \<noteq> 0"
      "is_chief_of rt (normalize_cluster_spec rt (cr_cluster_spec cr)) tt tid = Inr ch"
  shows "start_check_health_thread rt s =
           (Some (RuntimeError (timeout_message (check_health_initial_timeout s))), s) \<and>
         fst (initialize_multi_worker rt cr s) =
           Some (RuntimeError (timeout_message (check_health_initial_timeout s))) \<and>
         check_health_thread (snd (initialize_multi_worker rt cr s)) = check_health_thread s \<and>
         check_health_thread_should_stop (snd (initialize_multi_worker rt cr s)) =
           check_health_thread_should_stop s \<and>
         thread_log (snd (initialize_multi_worker rt cr s)) = thread_log s"
proof -
  define cs where "cs = normalize_cluster_spec rt (cr_cluster_spec cr)"
  define s5 where "s5 = create_channels rt cr tt tid (enable_collectives rt
     (s\<lparr> cluster_spec := Some cs, task_type := Some tt, task_id := Some tid,
         id_in_cluster := idc, num_workers := nw, is_chief := ch,
         worker_device := job_task tt tid \<rparr>))"
  have f5: "check_health_thread s5 = check_health_thread s"
    "check_health_thread_should_stop s5 = check_health_thread_should_stop s"
    "thread_log s5 = thread_log s"
    "check_health_initial_timeout s5 = check_health_initial_timeout s"
    "enable_check_health s5 = enable_check_health s"
    unfolding s5_def by (simp_all add: create_channels_thread)
  have run: "initialize_multi_worker rt cr s = start_check_health_thread rt s5"
    using task topo enabled f5(5)
    by (simp add: initialize_multi_worker_def Let_def cs_def [symmetric] s5_def [symmetric])
  have "start_check_health_thread rt s5 =
           (Some (RuntimeError (timeout_message (check_health_initial_timeout s5))), s5)"
    by (rule start_check_health_thread_timeout [OF eager]) (simp add: f5 timeout)
  with run f5 start_check_health_thread_timeout [OF eager timeout] show ?thesis by simp
qed

text \<open>
  Worker 0 of two workers, with an initial timeout of five seconds and a barrier that
  times out: the initialisation raises, and there is no monitor thread.
\<close>

theorem barrier_timeout_raises_and_monitor_never_starts_witness:
  "fst (initialize_multi_worker (eager_runtime (Some DeadlineExceededError)) (worker0_of two_workers)
          (class_defaults\<lparr>check_health_initial_timeout := 5\<rparr>)) =
     Some (RuntimeError ''Timeout waiting for the cluster, timeout is 5 seconds'') \<and>
   check_health_thread
     (snd (initialize_multi_worker (eager_runtime (Some DeadlineExceededError)) (worker0_of two_workers)
          (class_defaults\<lparr>check_health_initial_timeout := 5\<rparr>))) = None \<and>
   thread_log
     (snd (initialize_multi_worker (eager_runtime (Some DeadlineExceededError)) (worker0_of two_workers)
          (class_defaults\<lparr>check_health_initial_timeout := 5\<rparr>))) = []"
proof -
  let ?rt = "eager_runtime (Some DeadlineExceededError)"
  let ?s = "class_defaults\<lparr>check_health_initial_timeout := 5\<rparr>"
  let ?cr = "worker0_of two_workers"
  have h1: "executing_eagerly ?rt" by (simp add: eager_runtime_def)
  have h2: "barrier ?rt \<lparr> bytes_per_pack = 0,
                timeout_seconds = Some (check_health_initial_timeout ?s) \<rparr>
              = Some DeadlineExceededError"
    by (simp add: barrier_def eager_runtime_def)
  have h3: "enable_check_health ?s" by (simp add: class_defaults_def)
  have h4: "cr_task_type ?cr = Some ''worker''" "cr_task_id ?cr = Some 0"
    by (simp_all add: worker0_of_def)
  have h5: "id_in_cluster_of ?rt (normalize_cluster_spec ?rt (cr_cluster_spec ?cr)) ''worker'' 0 = Inr 0"
    by (simp add: eager_runtime_def)
  have h6: "worker_count ?rt (normalize_cluster_spec ?rt (cr_cluster_spec ?cr)) ''worker'' = Inr 2"
    by (simp add: eager_runtime_def worker0_of_def two_workers_def count_workers_def)
  have h7: "(2::int) \<noteq> 0" by simp
  have h8: "is_chief_of ?rt (normalize_cluster_spec ?rt (cr_cluster_spec ?cr)) ''worker'' 0 = Inr True"
    by (simp add: eager_runtime_def)
  have m: "timeout_message 5 = ''Timeout waiting for the cluster, timeout is 5 seconds''"
    by code_simp
  from barrier_timeout_raises_and_monitor_never_starts [OF h1 h2 h3 h4 h5 h6 h7 h8] m
  show ?thesis by (simp add: class_defaults_def)
qed

text \<open>
  C6. A cluster of more than one worker, every strategy object knowing the number of
  workers, exactly one of them the chief; the chief's initial value evaluates to the tensor
  \<open>v\<close> (of any shape: scalar, vector or more dimensions) and every worker's own initial
  value evaluates to a tensor of the shape and dtype of \<open>v\<close>. Then the chief issues
  \<^verbatim>\<open>broadcast_send\<close> of \<open>v\<close>, every non-chief issues \<^verbatim>\<open>broadcast_recv\<close> and receives
  \<open>v\<close>, and the variable starts from \<open>v\<close> on every worker.
\<close>

theorem initial_value_broadcast_round_trip:
  fixes ws :: "'a worker list"
  assumes many: "1 < length ws"
    and nw: "\<forall>w\<in>set ws. num_workers (w_strategy w) = int (length ws)"
    and chief: "filter (is_chief \<circ> w_strategy) ws = [wc]"
    and sent: "evaluate_initial_value conv (w_initial_value wc) (w_dtype wc) = Inr v"
    and others: "\<forall>w\<in>set ws. \<exists>t. evaluate_initial_value conv (w_initial_value w) (w_dtype w) = Inr t \<and>
                   t_shape t = t_shape v \<and> t_dtype t = t_dtype v"
  shows "worker_result conv gk ik wc =
           Inr (SendInitialValue
                  \<lparr> c_group_size = int (length ws), c_group_key = gk, c_instance_key = ik,
                    c_arg = Send v (t_shape v) (t_dtype v) \<rparr> v) \<and>
         (\<forall>w\<in>set ws. \<not> is_chief (w_strategy w) \<longrightarrow>
            (\<exists>c. worker_result conv gk ik w = Inr (RecvInitialValue c) \<and>
                 broadcast_result
                   (List.map_filter issued (map (worker_result conv gk ik) ws)) c = Done v)) \<and>
         broadcast_initial_value conv gk ik ws = map (\<lambda>w. Inr (Done v)) ws"
proof -
  let ?n = "int (length ws)"
  let ?rs = "map (worker_result conv gk ik) ws"
  have "wc \<in> set (filter (is_chief \<circ> w_strategy) ws)"
    by (simp add: chief)
  then have wc: "wc \<in> set ws" "is_chief (w_strategy wc)"
    by simp_all
  have only: "w = wc" if "w \<in> set ws" "is_chief (w_strategy w)" for w
  proof -
    from that have "w \<in> set (filter (is_chief \<circ> w_strategy) ws)" by simp
    then show ?thesis by (simp add: chief)
  qed
  have big: "1 < num_workers (w_strategy w)" if "w \<in> set ws" for w
    using that nw many by simp
  have rc: "worker_result conv gk ik wc = Inr (SendInitialValue (send_call ?n gk ik v) v)"
    using worker_result_chief [OF sent big [OF wc(1)] wc(2)] nw wc(1) by simp
  have ro: "worker_result conv gk ik w = Inr (RecvInitialValue (recv_call ?n gk ik v))"
    if "w \<in> set ws" "\<not> is_chief (w_strategy w)" for w
  proof -
    from others that(1) obtain t where
      t: "evaluate_initial_value conv (w_initial_value w) (w_dtype w) = Inr t"
         "t_shape t = t_shape v" "t_dtype t = t_dtype v" by blast
    from worker_result_other [OF t(1) big [OF that(1)] that(2)] nw that(1)
    show ?thesis by (simp add: recv_call_cong [OF t(2,3)])
  qed
  have iss: "issued (worker_result conv gk ik w) = Some (call_of ?n gk ik v w)"
    if "w \<in> set ws" for w
  proof (cases "is_chief (w_strategy w)")
    case True
    with only [OF that] rc show ?thesis by (simp add: call_of_def)
  next
    case False
    with ro [OF that] show ?thesis by (simp add: call_of_def)
  qed
  have calls: "List.map_filter issued ?rs = map (call_of ?n gk ik v) ws"
    unfolding map_filter_of_map by (rule map_filter_all_Some) (simp add: iss)
  note meets = broadcast_meets [OF chief, of _ gk ik v]
  have p1: "worker_result conv gk ik wc =
           Inr (SendInitialValue
                  \<lparr> c_group_size = int (length ws), c_group_key = gk, c_instance_key = ik,
                    c_arg = Send v (t_shape v) (t_dtype v) \<rparr> v)"
    using rc by (simp add: send_call_def)
  have p2: "\<forall>w\<in>set ws. \<not> is_chief (w_strategy w) \<longrightarrow>
            (\<exists>c. worker_result conv gk ik w = Inr (RecvInitialValue c) \<and>
                 broadcast_result (List.map_filter issued ?rs) c = Done v)"
    unfolding calls using ro meets by blast
  have res: "resolve (map (call_of ?n gk ik v) ws) (worker_result conv gk ik w) = Inr (Done v)"
    if "w \<in> set ws" for w
  proof (cases "is_chief (w_strategy w)")
    case True
    with only [OF that] rc meets [of "send_call ?n gk ik v"] show ?thesis by simp
  next
    case False
    with ro [OF that] meets [of "recv_call ?n gk ik v"] show ?thesis by simp
  qed
  have p3: "broadcast_initial_value conv gk ik ws = map (\<lambda>w. Inr (Done v)) ws"
    unfolding broadcast_initial_value_def Let_def calls by (simp add: res)
  from p1 p2 p3 show ?thesis by blast
qed

text \<open>
  Two workers whose own initial values differ: both end with the chief's \<open>[1, 2, 3]\<close>.
\<close>

theorem initial_value_broadcast_round_trip_witness:
  "worker_result convert_plain 1 1 chief_worker =
     Inr (SendInitialValue (bcast_call 2 (Send (vector [1, 2, 3]) [3] Float32)) (vector [1, 2, 3])) \<and>
   worker_result convert_plain 1 1 other_worker =
     Inr (RecvInitialValue (bcast_call 2 (Recv [3] Float32))) \<and>
   broadcast_initial_value convert_plain 1 1 [chief_worker, other_worker] =
     [Inr (Done (vector [1, 2, 3])), Inr (Done (vector [1, 2, 3]))]"
proof -
  let ?ws = "[chief_worker, other_worker]"
  let ?v = "vector [1, 2, 3 :: rat]"
  have h1: "1 < length ?ws" by simp
  have h2: "\<forall>w\<in>set ?ws. num_workers (w_strategy w) = int (length ?ws)"
    by (simp add: chief_worker_def other_worker_def)
  have h3: "filter (is_chief \<circ> w_strategy) ?ws = [chief_worker]"
    by (simp add: chief_worker_def other_worker_def)
  have h4: "evaluate_initial_value convert_plain (w_initial_value chief_worker) (w_dtype chief_worker)
      = Inr ?v"
    by (simp add: evaluate_initial_value_def chief_worker_def)
  have h5: "\<forall>w\<in>set ?ws. \<exists>t. evaluate_initial_value convert_plain (w_initial_value w) (w_dtype w) = Inr t \<and>
                   t_shape t = t_shape ?v \<and> t_dtype t = t_dtype ?v"
    by (simp add: evaluate_initial_value_def chief_worker_def other_worker_def vector_def)
  have o: "worker_result convert_plain 1 1 other_worker =
     Inr (RecvInitialValue (bcast_call 2 (Recv [3] Float32)))"
    by (simp add: worker_result_def get_variable_creator_initial_value_def initial_value_fn_def
        evaluate_initial_value_def other_worker_def class_defaults_def vector_def bcast_call_def)
  have s: "\<lparr> c_group_size = int (length ?ws), c_group_key = 1, c_instance_key = 1,
             c_arg = Send ?v (t_shape ?v) (t_dtype ?v) \<rparr>
           = bcast_call 2 (Send ?v [3] Float32)"
    by (simp add: bcast_call_def vector_def)
  from initial_value_broadcast_round_trip [OF h1 h2 h3 h4 h5, of 1 1] o show ?thesis
    unfolding s by simp
qed

text \<open>
  C7. Calls of \<^verbatim>\<open>all_gather\<close> that all meet, one per rank \<open>0..n-1\<close> (issued in any order),
  each declaring the group size \<open>n\<close>, with tensors of one shape and dtype that are not
  scalars: every call returns the concatenation of the tensors in ascending rank, that is
  of the participants arranged so that their ranks read \<open>0, 1, ..., n-1\<close>. For two
  participants with \<open>t0\<close> on rank 0 and \<open>t1\<close> on rank 1 both get the elements of \<open>t0\<close>
  followed by those of \<open>t1\<close>, and not the reverse order (wherever the two orders differ).
\<close>

theorem all_gather_in_ascending_rank:
  "((\<forall>d\<in>set cs. same_instance c d \<and> c_group_size d = int (length cs) \<and>
        t_shape (snd (c_arg d)) = t_shape (snd (c_arg c)) \<and>
        t_dtype (snd (c_arg d)) = t_dtype (snd (c_arg c))) \<and>
     c \<in> set cs \<and> t_shape (snd (c_arg c)) \<noteq> [] \<and>
     mset (map (fst \<circ> c_arg) cs) = mset [0..<length cs] \<longrightarrow>
     (\<exists>qs. mset qs = mset cs \<and> map (fst \<circ> c_arg) qs = [0..<length cs] \<and>
        all_gather_result cs c = Done (gathered (map (snd \<circ> c_arg) qs) (snd (c_arg c))) \<and>
        t_elems (gathered (map (snd \<circ> c_arg) qs) (snd (c_arg c))) =
          concat (map (t_elems \<circ> snd \<circ> c_arg) qs))) \<and>
   ((cs = [p, q] \<or> cs = [q, p]) \<and> same_instance p q \<and>
     c_group_size p = 2 \<and> c_group_size q = 2 \<and> c_arg p = (0, t0) \<and> c_arg q = (1, t1) \<and>
     t_shape t0 \<noteq> [] \<and> t_shape t1 = t_shape t0 \<and> t_dtype t1 = t_dtype t0 \<longrightarrow>
     all_gather_result cs p = Done (gathered [t0, t1] t0) \<and>
     all_gather_result cs q = Done (gathered [t0, t1] t0) \<and>
     t_elems (gathered [t0, t1] t0) = t_elems t0 @ t_elems t1 \<and>
     (t_elems t0 @ t_elems t1 \<noteq> t_elems t1 @ t_elems t0 \<longrightarrow>
        all_gather_result cs p \<noteq> Done (gathered [t1, t0] t0) \<and>
        all_gather_result cs q \<noteq> Done (gathered [t1, t0] t0)))"
proof (intro conjI impI)
  assume a: "(\<forall>d\<in>set cs. same_instance c d \<and> c_group_size d = int (length cs) \<and>
        t_shape (snd (c_arg d)) = t_shape (snd (c_arg c)) \<and>
        t_dtype (snd (c_arg d)) = t_dtype (snd (c_arg c))) \<and>
     c \<in> set cs \<and> t_shape (snd (c_arg c)) \<noteq> [] \<and>
     mset (map (fst \<circ> c_arg) cs) = mset [0..<length cs]"
  let ?qs = "sort_key (fst \<circ> c_arg) cs"
  from a have a1: "\<forall>d\<in>set cs. same_instance c d"
    and a2: "\<forall>d\<in>set cs. c_group_size d = int (length cs)"
    and a3: "\<forall>d\<in>set cs. t_shape (snd (c_arg d)) = t_shape (snd (c_arg c)) \<and>
        t_dtype (snd (c_arg d)) = t_dtype (snd (c_arg c))"
    and a4: "c \<in> set cs" and a5: "t_shape (snd (c_arg c)) \<noteq> []"
    and a6: "mset (map (fst \<circ> c_arg) cs) = mset [0..<length cs]"
    by blast+
  have r: "rendezvous c cs = Done cs"
    using a1 a2 a4 by (rule rendezvous_all)
  have o: "map (fst \<circ> c_arg) ?qs = [0..<length cs]"
    using a6 by (rule ranks_in_order)
  have sh: "list_all (\<lambda>u. t_shape u = t_shape (snd (c_arg c)) \<and> t_dtype u = t_dtype (snd (c_arg c)))
      (map (snd \<circ> c_arg) ?qs)"
    using a3 by (simp add: list_all_iff)
  have res: "all_gather_result cs c = Done (gathered (map (snd \<circ> c_arg) ?qs) (snd (c_arg c)))"
    unfolding all_gather_result_def r using sh a5 by (simp add: Let_def)
  have el: "t_elems (gathered (map (snd \<circ> c_arg) ?qs) (snd (c_arg c))) =
          concat (map (t_elems \<circ> snd \<circ> c_arg) ?qs)"
    by (simp add: gathered_def comp_def)
  have ms: "mset ?qs = mset cs" by simp
  show "\<exists>qs. mset qs = mset cs \<and> map (fst \<circ> c_arg) qs = [0..<length cs] \<and>
        all_gather_result cs c = Done (gathered (map (snd \<circ> c_arg) qs) (snd (c_arg c))) \<and>
        t_elems (gathered (map (snd \<circ> c_arg) qs) (snd (c_arg c))) =
          concat (map (t_elems \<circ> snd \<circ> c_arg) qs)"
    using ms o res el by blast
next
  assume b: "(cs = [p, q] \<or> cs = [q, p]) \<and> same_instance p q \<and>
     c_group_size p = 2 \<and> c_group_size q = 2 \<and> c_arg p = (0, t0) \<and> c_arg q = (1, t1) \<and>
     t_shape t0 \<noteq> [] \<and> t_shape t1 = t_shape t0 \<and> t_dtype t1 = t_dtype t0"
  from b have b1: "cs = [p, q] \<or> cs = [q, p]" and b2: "same_instance p q"
    and sz: "c_group_size p = 2" "c_group_size q = 2"
    and ar: "c_arg p = (0, t0)" "c_arg q = (1, t1)"
    and b7: "t_shape t0 \<noteq> []" and b8: "t_shape t1 = t_shape t0" "t_dtype t1 = t_dtype t0"
    by blast+
  have pp: "same_instance p p" by (simp add: same_instance_def)
  have g: "group_of p cs = cs"
    using b1 b2 pp by (auto simp: group_of_def)
  with b1 have grp: "group_of p cs = [p, q] \<or> group_of p cs = [q, p]" by simp
  from ar have rk: "fst (c_arg p) = 0" "fst (c_arg q) = 1" by simp_all
  note rv = rendezvous_pair [OF grp sz, unfolded g]
  have so: "map (snd \<circ> c_arg) (sort_key (fst \<circ> c_arg) cs) = [t0, t1]"
    using sort_pair [OF b1 rk] ar by simp
  have ok: "list_all (\<lambda>u. t_shape u = t_shape t0 \<and> t_dtype u = t_dtype t0) [t0, t1]"
    using b8 by simp
  show p: "all_gather_result cs p = Done (gathered [t0, t1] t0)"
    unfolding all_gather_result_def rv(1) using so ok b7 by (simp add: Let_def ar)
  have same: "gathered [t0, t1] t1 = gathered [t0, t1] t0"
    using b8 by (simp add: gathered_def)
  have ok1: "list_all (\<lambda>u. t_shape u = t_shape t1 \<and> t_dtype u = t_dtype t1) [t0, t1]"
    using b8 by simp
  have "all_gather_result cs q = Done (gathered [t0, t1] t1)"
    unfolding all_gather_result_def rv(2) using so ok1 b7 b8(1) by (simp add: Let_def ar)
  then show q: "all_gather_result cs q = Done (gathered [t0, t1] t0)"
    by (simp only: same)
  show "t_elems (gathered [t0, t1] t0) = t_elems t0 @ t_elems t1"
    by (simp add: gathered_def)
  assume "t_elems t0 @ t_elems t1 \<noteq> t_elems t1 @ t_elems t0"
  then have "gathered [t0, t1] t0 \<noteq> gathered [t1, t0] t0"
    by (simp add: gathered_def)
  with p q show "all_gather_result cs p \<noteq> Done (gathered [t1, t0] t0)"
    "all_gather_result cs q \<noteq> Done (gathered [t1, t0] t0)" by simp_all
qed

text \<open>
  Two vectors, the call of rank 1 issued first: both calls return \<open>[0, 1, 10, 11]\<close>, and
  not \<open>[10, 11, 0, 1]\<close>.
\<close>

theorem all_gather_in_ascending_rank_witness:
  "all_gather [on_device 1 2 [10, 11 :: rat], on_device 0 2 [0, 1]]
     = [Done \<lparr> t_shape = [4], t_dtype = Float32, t_elems = [0, 1, 10, 11] \<rparr>,
        Done \<lparr> t_shape = [4], t_dtype = Float32, t_elems = [0, 1, 10, 11] \<rparr>] \<and>
   all_gather_result [on_device 1 2 [10, 11 :: rat], on_device 0 2 [0, 1]] (on_device 0 2 [0, 1])
     \<noteq> Done \<lparr> t_shape = [4], t_dtype = Float32, t_elems = [10, 11, 0, 1] \<rparr> \<and>
   (\<exists>qs :: (nat \<times> rat tensor) collective_call list. map (fst \<circ> c_arg) qs = [0..<2] \<and>
      all_gather_result [on_device 1 2 [10, 11 :: rat], on_device 0 2 [0, 1]] (on_device 0 2 [0, 1])
        = Done (gathered (map (snd \<circ> c_arg) qs) (vector [0, 1])))"
proof -
  let ?p = "on_device 0 2 [0, 1 :: rat]"
  let ?q = "on_device 1 2 [10, 11 :: rat]"
  let ?t0 = "vector [0, 1 :: rat]"
  let ?t1 = "vector [10, 11 :: rat]"
  note inst = all_gather_in_ascending_rank [of "[?q, ?p]" ?p ?p ?q ?t0 ?t1]
  have h1: "(\<forall>d\<in>set [?q, ?p]. same_instance ?p d \<and> c_group_size d = int (length [?q, ?p]) \<and>
        t_shape (snd (c_arg d)) = t_shape (snd (c_arg ?p)) \<and>
        t_dtype (snd (c_arg d)) = t_dtype (snd (c_arg ?p))) \<and>
     ?p \<in> set [?q, ?p] \<and> t_shape (snd (c_arg ?p)) \<noteq> [] \<and>
     mset (map (fst \<circ> c_arg) [?q, ?p]) = mset [0..<length [?q, ?p]]"
    by (simp add: same_instance_def on_device_def upt_rec add_mset_commute)
  have h2: "([?q, ?p] = [?p, ?q] \<or> [?q, ?p] = [?q, ?p]) \<and> same_instance ?p ?q \<and>
     c_group_size ?p = 2 \<and> c_group_size ?q = 2 \<and> c_arg ?p = (0, ?t0) \<and> c_arg ?q = (1, ?t1) \<and>
     t_shape ?t0 \<noteq> [] \<and> t_shape ?t1 = t_shape ?t0 \<and> t_dtype ?t1 = t_dtype ?t0"
    by (simp add: same_instance_def on_device_def vector_def)
  have h3: "t_elems ?t0 @ t_elems ?t1 \<noteq> t_elems ?t1 @ t_elems ?t0"
    by (simp add: vector_def)
  have g01: "gathered [?t0, ?t1] ?t0 = \<lparr> t_shape = [4], t_dtype = Float32, t_elems = [0, 1, 10, 11] \<rparr>"
    by (simp add: gathered_def vector_def)
  have g10: "gathered [?t1, ?t0] ?t0 = \<lparr> t_shape = [4], t_dtype = Float32, t_elems = [10, 11, 0, 1] \<rparr>"
    by (simp add: gathered_def vector_def)
  have arg: "snd (c_arg ?p) = ?t0" by (simp add: on_device_def vector_def)
  have len: "length [?q, ?p] = 2" by simp
  from inst h2 h3 have
    p: "all_gather_result [?q, ?p] ?p = Done (gathered [?t0, ?t1] ?t0)" and
    q: "all_gather_result [?q, ?p] ?q = Done (gathered [?t0, ?t1] ?t0)" and
    n: "all_gather_result [?q, ?p] ?p \<noteq> Done (gathered [?t1, ?t0] ?t0)"
    by blast+
  from inst [THEN conjunct1, THEN mp, OF h1] obtain qs :: "(nat \<times> rat tensor) collective_call list" where
    "map (fst \<circ> c_arg) qs = [0..<length [?q, ?p]]"
    "all_gather_result [?q, ?p] ?p = Done (gathered (map (snd \<circ> c_arg) qs) (snd (c_arg ?p)))"
    by blast
  then have "\<exists>qs :: (nat \<times> rat tensor) collective_call list. map (fst \<circ> c_arg) qs = [0..<length [?q, ?p]] \<and>
      all_gather_result [?q, ?p] ?p = Done (gathered (map (snd \<circ> c_arg) qs) (snd (c_arg ?p)))"
    by blast
  then have e: "\<exists>qs :: (nat \<times> rat tensor) collective_call list. map (fst \<circ> c_arg) qs = [0..<2] \<and>
      all_gather_result [?q, ?p] ?p = Done (gathered (map (snd \<circ> c_arg) qs) ?t0)"
    unfolding arg len .
  from p q n e show ?thesis
    unfolding g01 g10 by (simp add: all_gather_def)
qed

text \<open>
  C8, as the code has it. When a multi-worker initialisation succeeds, the group size of
  the compute-device channel is the number of local devices times the number of workers,
  the group size of the host channel is the number of workers, and
  \<^verbatim>\<open>_num_replicas_in_sync\<close> is the number of local devices times the number of workers;
  the local devices are those computed for this task and the number of workers is what
  \<^verbatim>\<open>worker_count\<close> returned. Of the methods of the class, only those that initialise the
  object again change these three numbers: \<^verbatim>\<open>_initialize_strategy\<close>,
  \<^verbatim>\<open>_initialize_local\<close> (which \<^verbatim>\<open>_from_local_devices\<close> calls on the object it has
  constructed), \<^verbatim>\<open>_initialize_multi_worker\<close>, and \<^verbatim>\<open>_configure\<close> given a cluster spec.
  When such a call succeeds the three equalities hold for the new topology (one worker,
  after a local initialisation).
\<close>

theorem group_sizes_after_initialize_multi_worker:
  "(initialize_multi_worker rt cr s = (None, s') \<longrightarrow>
      sizes_agree s' \<and>
      (\<exists>tt tid. cr_task_type cr = Some tt \<and> cr_task_id cr = Some tid \<and>
         worker_devices s' =
           map (canonicalize rt) (local_devices (job_task tt tid) (resolver_num_gpus rt cr)) \<and>
         worker_count rt (normalize_cluster_spec rt (cr_cluster_spec cr)) tt = Inr (num_workers s'))) \<and>
   ((\<forall>c\<in>set calls. \<not> reinitializes c) \<longrightarrow>
      channel_sizes (run_calls rt calls s) = channel_sizes s) \<and>
   (reinitializes c \<and> step rt c s = (None, s') \<longrightarrow> sizes_agree s') \<and>
   (from_local_devices rt tf_config devices comm = (None, s') \<longrightarrow>
      sizes_agree s' \<and> num_workers s' = 1)"
  using initialize_multi_worker_agree [of rt cr s s']
    initialize_multi_worker_topology [of rt cr s s']
    run_calls_keeps_sizes [of calls rt s] step_reinitialize_agree [of c rt s s']
    from_local_devices_agree [of rt tf_config devices comm s']
  by blast

text \<open>
  Worker 0 of two workers with two GPUs: group sizes 4 and 2, four replicas in sync; they
  survive stopping the monitor, a reduction, a read of the replica count and the
  destructor; a reconfiguration to three workers succeeds and leaves the sizes in
  agreement with the new topology, and so does a local initialisation, after which the
  sizes are 1, 1 and 1.
\<close>

theorem group_sizes_after_initialize_multi_worker_witness:
  "fst (initialize_multi_worker (eager_runtime None) (worker0_of two_workers) class_defaults) = None \<and>
   sizes_agree (snd (initialize_multi_worker (eager_runtime None) (worker0_of two_workers) class_defaults)) \<and>
   channel_sizes (snd (initialize_multi_worker (eager_runtime None) (worker0_of two_workers) class_defaults))
     = (Some 4, Some 2, 4) \<and>
   channel_sizes (run_calls (eager_runtime None)
       [StopCheckHealthThread, ReduceTo ReduceOp_SUM (Plain (0::nat)), NumReplicasInSync, Del]
       (snd (initialize_multi_worker (eager_runtime None) (worker0_of two_workers) class_defaults)))
     = (Some 4, Some 2, 4) \<and>
   sizes_agree (snd (step (eager_runtime None)
       (Configure (Some three_workers) (Some ''worker'') (Some 0) :: nat call)
       (snd (initialize_multi_worker (eager_runtime None) (worker0_of two_workers) class_defaults)))) \<and>
   sizes_agree (snd (step (eager_runtime None)
       (InitializeLocal (tf_config_of two_workers) None :: nat call)
       (snd (initialize_multi_worker (eager_runtime None) (worker0_of two_workers) class_defaults)))) \<and>
   channel_sizes (snd (step (eager_runtime None)
       (InitializeLocal (tf_config_of two_workers) None :: nat call)
       (snd (initialize_multi_worker (eager_runtime None) (worker0_of two_workers) class_defaults))))
     = (Some 1, Some 1, 1)"
proof -
  let ?rt = "eager_runtime None"
  let ?init = "initialize_multi_worker ?rt (worker0_of two_workers) class_defaults"
  let ?c = "Configure (Some three_workers) (Some ''worker'') (Some 0) :: nat call"
  let ?l = "InitializeLocal (tf_config_of two_workers) None :: nat call"
  let ?calls = "[StopCheckHealthThread, ReduceTo ReduceOp_SUM (Plain (0::nat)), NumReplicasInSync, Del]"
  have ok: "fst ?init = None" by code_simp
  then have i: "?init = (None, snd ?init)" by (metis prod.collapse)
  have v: "channel_sizes (snd ?init) = (Some 4, Some 2, 4)" by code_simp
  have q: "\<forall>c\<in>set ?calls. \<not> reinitializes c" by simp
  have ok2: "fst (step ?rt ?c (snd ?init)) = None" by code_simp
  then have r: "step ?rt ?c (snd ?init) = (None, snd (step ?rt ?c (snd ?init)))"
    by (metis prod.collapse)
  have rc: "reinitializes ?c" by (simp add: three_workers_def)
  have ok3: "fst (step ?rt ?l (snd ?init)) = None" by (simp add: initialize_local_ok)
  then have r3: "step ?rt ?l (snd ?init) = (None, snd (step ?rt ?l (snd ?init)))"
    by (metis prod.collapse)
  have rl: "reinitializes ?l" by simp
  have v3: "channel_sizes (snd (step ?rt ?l (snd ?init))) = (Some 1, Some 1, 1)" by code_simp
  have a: "sizes_agree (snd ?init)"
    using group_sizes_after_initialize_multi_worker
      [of ?rt "worker0_of two_workers" class_defaults "snd ?init" "[] :: nat call list"
          NumReplicasInSync "tf_config_of two_workers" "[]" AUTO] i
    by blast
  have b: "channel_sizes (run_calls ?rt ?calls (snd ?init)) = channel_sizes (snd ?init)"
    using group_sizes_after_initialize_multi_worker
      [of ?rt "worker0_of two_workers" "snd ?init" "snd ?init" ?calls
          NumReplicasInSync "tf_config_of two_workers" "[]" AUTO] q
    by blast
  have c: "sizes_agree (snd (step ?rt ?c (snd ?init)))"
    using group_sizes_after_initialize_multi_worker
      [of ?rt "worker0_of two_workers" "snd ?init" "snd (step ?rt ?c (snd ?init))"
          "[] :: nat call list" ?c "tf_config_of two_workers" "[]" AUTO] rc r
    by blast
  have d: "sizes_agree (snd (step ?rt ?l (snd ?init)))"
    using group_sizes_after_initialize_multi_worker
      [of ?rt "worker0_of two_workers" "snd ?init" "snd (step ?rt ?l (snd ?init))"
          "[] :: nat call list" ?l "tf_config_of two_workers" "[]" AUTO] rl r3
    by blast
  from ok a v b c d v3 show ?thesis by simp
qed

text \<open>
  The claim as stated fails: after the same initialisation, a \<^verbatim>\<open>_configure\<close> with a
  cluster of three workers changes the three numbers.
\<close>

theorem group_sizes_change_on_reconfigure:
  "fst (initialize_multi_worker (eager_runtime None) (worker0_of two_workers) class_defaults) = None \<and>
   channel_sizes (run_calls (eager_runtime None)
       [Configure (Some three_workers) (Some ''worker'') (Some 0) :: nat call]
       (snd (initialize_multi_worker (eager_runtime None) (worker0_of two_workers) class_defaults)))
   \<noteq> channel_sizes
       (snd (initialize_multi_worker (eager_runtime None) (worker0_of two_workers) class_defaults))"
  by code_simp

text \<open>
  C9, as the code has it. With a monitor thread at hand, \<^verbatim>\<open>_stop_check_health_thread\<close>
  sets the stop event, joins the thread with no timeout and forgets the thread; the
  destructor does exactly that. What bounds the join is the monitor: once the stop event
  is set at some iteration of its loop, the loop has returned by that iteration, whatever
  the probes answer.
\<close>

theorem stop_joins_without_timeout_and_monitor_returns:
  "(check_health_thread s = Some th \<and> check_health_thread_should_stop s = Some b \<longrightarrow>
      stop_check_health_thread s =
        (None, s\<lparr> check_health_thread_should_stop := Some True,
                  thread_log := thread_log s @ [EventSet, ThreadJoin None],
                  check_health_thread := None \<rparr>)) \<and>
   del s = stop_check_health_thread s \<and>
   (stop_is_set env k \<and> rounds m \<le> k \<and> k - rounds m < fuel \<longrightarrow>
      fst (check_health fuel s env m) \<noteq> OutOfFuel)"
  using check_health_stops [of env k m fuel s]
  by (auto simp: stop_check_health_thread_def del_def)

text \<open>
  After the initialisation of worker 0 of two workers: the destructor sets the event and
  joins; a monitor that sees the event at its third iteration has returned within three.
\<close>

theorem stop_joins_without_timeout_and_monitor_returns_witness:
  "thread_log (snd (del (snd (initialize_multi_worker (eager_runtime None)
       (worker0_of two_workers) class_defaults)))) = [ThreadStart, EventSet, ThreadJoin None] \<and>
   check_health_thread (snd (del (snd (initialize_multi_worker (eager_runtime None)
       (worker0_of two_workers) class_defaults)))) = None \<and>
   fst (check_health 3 (snd (initialize_multi_worker (eager_runtime None)
       (worker0_of two_workers) class_defaults)) (stop_from 2) monitor0) \<noteq> OutOfFuel"
proof -
  let ?s = "snd (initialize_multi_worker (eager_runtime None) (worker0_of two_workers) class_defaults)"
  have t: "check_health_thread ?s = Some (Thread True) \<and> check_health_thread_should_stop ?s = Some False"
    by code_simp
  have l: "thread_log ?s = [ThreadStart]" by code_simp
  have k: "stop_is_set (stop_from 2) 2 \<and> rounds monitor0 \<le> 2 \<and> 2 - rounds monitor0 < (3::nat)"
    by (simp add: stop_from_def monitor0_def)
  note c = stop_joins_without_timeout_and_monitor_returns
      [of ?s "Thread True" False "stop_from 2" 2 monitor0 3]
  from c t have "del ?s = (None, ?s\<lparr> check_health_thread_should_stop := Some True,
                  thread_log := thread_log ?s @ [EventSet, ThreadJoin None],
                  check_health_thread := None \<rparr>)"
    by metis
  moreover from c k have "fst (check_health 3 ?s (stop_from 2) monitor0) \<noteq> OutOfFuel"
    by blast
  ultimately show ?thesis using l by simp
qed

text \<open>
  The claim as stated fails: the join the destructor issues after that initialisation
  carries no timeout.
\<close>

theorem stop_join_has_no_timeout:
  "ThreadJoin None \<in> set (thread_log (snd (del
      (snd (initialize_multi_worker (eager_runtime None) (worker0_of two_workers) class_defaults)))))"
  by code_simp

text \<open>
  C10. Reducing a Mirrored value with MEAN hands the value back unchanged, whatever the
  state of the strategy, the destinations and the hints: the result is the operand itself
  and neither \<^verbatim>\<open>reduce_non_distributed_value\<close> nor a channel's \<^verbatim>\<open>reduce\<close> is called, so
  no collective runs.
\<close>

theorem reduce_to_mean_mirrored_identity:
  "reduce_to s ReduceOp_MEAN (Mirrored vs) destinations experimental_hints = Inr (Returned (Mirrored vs))"
  by (simp add: reduce_to_def)

end
